theory Spec2Isabelle
  imports Complex_Main "HOL-Library.AList"
begin

section \<open>Retail App API: products and cash-on-delivery orders\<close>

text \<open>
  A shallow embedding of \<^verbatim>\<open>main.py\<close> and \<^verbatim>\<open>schemas.py\<close>. Every handler is a
  function from the store before the call to the store after it, paired with either the
  error raised or the value returned, so that a failure after a write would be visible.

  Conventions of the embedding:
  \<^item> a Python \<^verbatim>\<open>dict\<close> is an association list with distinct keys in insertion order;
    \<^verbatim>\<open>d[k] = v\<close> is \<open>AList.update\<close> (an existing key keeps its place, a new key goes
    last) and \<^verbatim>\<open>d.pop(k)\<close> is \<open>AList.delete\<close>;
  \<^item> a pydantic \<^verbatim>\<open>float\<close> is a real number: rounding, infinities and NaN of IEEE
    arithmetic are outside the embedding;
  \<^item> a string is a list of characters; case folding covers the ASCII letters;
  \<^item> the clock (\<^verbatim>\<open>datetime.utcnow()\<close>), the identifier the driver generates for an
    inserted document and the process environment are read from an explicit \<open>env\<close>.
\<close>

subsection \<open>Values, documents and errors\<close>

text \<open>\<^verbatim>\<open>bson.ObjectId\<close>: twelve bytes, kept as the 24 lower-case hexadecimal digits
  that \<^verbatim>\<open>str\<close> prints.\<close>

datatype ObjectId = ObjectId string

text \<open>A naive \<^verbatim>\<open>datetime.datetime\<close>.\<close>

record datetime =
  dt_year :: nat
  dt_month :: nat
  dt_day :: nat
  dt_hour :: nat
  dt_minute :: nat
  dt_second :: nat
  dt_microsecond :: nat

datatype val =
    VNone
  | VBool bool
  | VInt int
  | VFloat real
  | VStr string
  | VDatetime datetime
  | VObjectId ObjectId
  | VList "val list"
  | VDict "(string \<times> val) list"

type_synonym doc = "(string \<times> val) list"

text \<open>
  What a handler can raise: \<^verbatim>\<open>HTTPException(status_code, detail)\<close>; the 422 that
  FastAPI answers when the request body does not validate against the declared model;
  pydantic's \<open>ValidationError\<close> raised inside a handler; Python's \<open>KeyError\<close>; bson's
  \<open>InvalidId\<close>; the driver's \<open>DuplicateKeyError\<close>; and \<open>Unsupported\<close> where the
  program leaves the fragment of Python and of the store's query language embedded here
  (a regular expression with operators, \<^verbatim>\<open>str\<close> of a compound value, a sort over keys
  that are not datetimes).
\<close>

datatype error =
    HTTPException nat string
  | RequestValidationError
  | ValidationError
  | KeyError string
  | InvalidId
  | DuplicateKeyError
  | Unsupported

text \<open>What a handler returns: \<^verbatim>\<open>None\<close>, a dict, or a list of such values.\<close>

datatype response = RNone | RDict doc | RList "response list"

record env =
  utcnow :: datetime
  store_now :: datetime
  new_oid :: ObjectId
  ADMIN_KEY :: "string option"

text \<open>The two collections of the database, each in the store's natural order.\<close>

record store =
  product_coll :: "doc list"
  order_coll :: "doc list"

subsection \<open>Strings, identifiers and timestamps\<close>

definition is_hex :: "char \<Rightarrow> bool" where
  "is_hex c = (c \<in> set ''0123456789abcdefABCDEF'')"

definition to_lower :: "char \<Rightarrow> char" where
  "to_lower c =
     (case map_of (zip ''ABCDEFGHIJKLMNOPQRSTUVWXYZ'' ''abcdefghijklmnopqrstuvwxyz'') c of
        None \<Rightarrow> c
      | Some l \<Rightarrow> l)"

definition lower :: "string \<Rightarrow> string" where
  "lower s = map to_lower s"

text \<open>
  \<^verbatim>\<open>
  def to_object_id(id_str: str) -> ObjectId:
      try:
          return ObjectId(id_str)
      except Exception:
          raise HTTPException(status_code=400, detail="Invalid ID format")
  \<close>
  \<^verbatim>\<open>ObjectId(s)\<close> accepts a string of 24 hexadecimal digits and raises otherwise. The
  identifiers embedded are these: a string of 24 characters in which white space stands
  between pairs of digits, which \<^verbatim>\<open>bytes.fromhex\<close> reads as fewer than 12 bytes, counts
  here as malformed.
\<close>

definition parse_oid :: "string \<Rightarrow> ObjectId option" where
  "parse_oid s = (if length s = 24 \<and> list_all is_hex s then Some (ObjectId (lower s)) else None)"

definition to_object_id :: "string \<Rightarrow> error + ObjectId" where
  "to_object_id id_str =
     (case parse_oid id_str of
        Some oid \<Rightarrow> Inr oid
      | None \<Rightarrow> Inl (HTTPException 400 ''Invalid ID format''))"

fun str_oid :: "ObjectId \<Rightarrow> string" where
  "str_oid (ObjectId h) = h"

definition digit :: "nat \<Rightarrow> char" where
  "digit n = ''0123456789'' ! (n mod 10)"

definition pad2 :: "nat \<Rightarrow> string" where
  "pad2 n = [digit (n div 10), digit n]"

definition pad4 :: "nat \<Rightarrow> string" where
  "pad4 n = [digit (n div 1000), digit (n div 100), digit (n div 10), digit n]"

definition pad6 :: "nat \<Rightarrow> string" where
  "pad6 n = [digit (n div 100000), digit (n div 10000), digit (n div 1000),
             digit (n div 100), digit (n div 10), digit n]"

text \<open>\<^verbatim>\<open>datetime.isoformat()\<close> of a naive datetime: \<^verbatim>\<open>YYYY-MM-DDTHH:MM:SS\<close>, followed
  by \<^verbatim>\<open>.ffffff\<close> when the microsecond is not zero.\<close>

definition isoformat :: "datetime \<Rightarrow> string" where
  "isoformat t =
     pad4 (dt_year t) @ ''-'' @ pad2 (dt_month t) @ ''-'' @ pad2 (dt_day t) @ ''T'' @
     pad2 (dt_hour t) @ '':'' @ pad2 (dt_minute t) @ '':'' @ pad2 (dt_second t) @
     (if dt_microsecond t = 0 then [] else ''.'' @ pad6 (dt_microsecond t))"

text \<open>\<^verbatim>\<open>str(v)\<close> for the values an \<^verbatim>\<open>_id\<close> field holds in this program; \<open>None\<close> marks a
  value whose printed form is not embedded.\<close>

fun py_str :: "val \<Rightarrow> string option" where
  "py_str (VObjectId oid) = Some (str_oid oid)"
| "py_str (VStr s) = Some s"
| "py_str VNone = Some ''None''"
| "py_str (VBool b) = Some (if b then ''True'' else ''False'')"
| "py_str _ = None"

subsection \<open>Serialization\<close>

text \<open>
  \<^verbatim>\<open>
  def serialize_doc(doc: dict):
      if not doc:
          return None
      doc["id"] = str(doc.pop("_id"))
      for k in ["created_at", "updated_at", "placed_at"]:
          if k in doc and isinstance(doc[k], datetime):
              doc[k] = doc[k].isoformat()
      return doc
  \<close>
\<close>

definition iso_field :: "string \<Rightarrow> doc \<Rightarrow> doc" where
  "iso_field k d =
     (case map_of d k of
        Some (VDatetime t) \<Rightarrow> AList.update k (VStr (isoformat t)) d
      | _ \<Rightarrow> d)"

definition serialize_doc :: "doc option \<Rightarrow> error + response" where
  "serialize_doc doc =
     (case doc of
        None \<Rightarrow> Inr RNone
      | Some d \<Rightarrow>
          if d = [] then Inr RNone
          else (case map_of d ''_id'' of
                  None \<Rightarrow> Inl (KeyError ''_id'')
                | Some i \<Rightarrow>
                    (case py_str i of
                       None \<Rightarrow> Inl Unsupported
                     | Some s \<Rightarrow>
                         Inr (RDict (foldl (\<lambda>d k. iso_field k d)
                                (AList.update ''id'' (VStr s) (AList.delete ''_id'' d))
                                [''created_at'', ''updated_at'', ''placed_at''])))))"

subsection \<open>The admin gate\<close>

text \<open>
  \<^verbatim>\<open>
  def require_admin(admin_key: Optional[str]):
      expected = os.getenv("ADMIN_KEY", "admin123")
      if admin_key != expected:
          raise HTTPException(status_code=401, detail="Unauthorized: invalid admin key")
  \<close>
\<close>

definition getenv :: "string option \<Rightarrow> string \<Rightarrow> string" where
  "getenv var dflt = (case var of None \<Rightarrow> dflt | Some v \<Rightarrow> v)"

definition require_admin :: "env \<Rightarrow> string option \<Rightarrow> error + unit" where
  "require_admin e admin_key =
     (let expected = getenv (ADMIN_KEY e) ''admin123'' in
      if admin_key \<noteq> Some expected
      then Inl (HTTPException 401 ''Unauthorized: invalid admin key'')
      else Inr ())"

subsection \<open>The document store\<close>

text \<open>
  The operations of the driver that the handlers call on one collection, for the filter
  \<^verbatim>\<open>{"_id": oid}\<close>: \<^verbatim>\<open>find_one\<close>, \<^verbatim>\<open>update_one\<close> with \<^verbatim>\<open>{"$set": updates}\<close> and
  \<^verbatim>\<open>delete_one\<close>. Each acts on the first matching document; the counts are
  \<^verbatim>\<open>matched_count\<close> and \<^verbatim>\<open>deleted_count\<close>. A datetime is stored with millisecond
  precision.
\<close>

definition has_id :: "ObjectId \<Rightarrow> doc \<Rightarrow> bool" where
  "has_id oid d = (map_of d ''_id'' = Some (VObjectId oid))"

definition find_one :: "doc list \<Rightarrow> ObjectId \<Rightarrow> doc option" where
  "find_one coll oid = List.find (has_id oid) coll"

fun bson :: "val \<Rightarrow> val" where
  "bson (VDatetime t) = VDatetime (t\<lparr>dt_microsecond := (dt_microsecond t div 1000) * 1000\<rparr>)"
| "bson v = v"

definition set_fields :: "doc \<Rightarrow> doc \<Rightarrow> doc" where
  "set_fields d updates = foldl (\<lambda>d (k, v). AList.update k (bson v) d) d updates"

fun update_one :: "doc list \<Rightarrow> ObjectId \<Rightarrow> doc \<Rightarrow> doc list \<times> nat" where
  "update_one [] oid updates = ([], 0)"
| "update_one (d # ds) oid updates =
     (if has_id oid d then (set_fields d updates # ds, 1)
      else (case update_one ds oid updates of (ds', n) \<Rightarrow> (d # ds', n)))"

fun delete_one :: "doc list \<Rightarrow> ObjectId \<Rightarrow> doc list \<times> nat" where
  "delete_one [] oid = ([], 0)"
| "delete_one (d # ds) oid =
     (if has_id oid d then (ds, 1)
      else (case delete_one ds oid of (ds', n) \<Rightarrow> (d # ds', n)))"

text \<open>\<^verbatim>\<open>insert_one\<close> of a document that carries no \<^verbatim>\<open>_id\<close>: the driver adds the
  identifier it generated; the store refuses an identifier it already holds. The
  documents embedded are those the driver can encode: an integer beyond 64 bits, which
  the driver refuses, is outside the embedding.\<close>

definition insert_one :: "doc list \<Rightarrow> ObjectId \<Rightarrow> doc \<Rightarrow> error + doc list" where
  "insert_one coll oid d =
     (if list_ex (has_id oid) coll then Inl DuplicateKeyError
      else Inr (coll @ [(''_id'', VObjectId oid) # map (\<lambda>(k, v). (k, bson v)) d]))"

subsubsection \<open>Query filters\<close>

text \<open>
  The filters that the handlers build: a dict from a field name to a condition, or from
  \<^verbatim>\<open>$or\<close> to a list of one-field alternatives. \<open>Eq v\<close> is \<^verbatim>\<open>{field: v}\<close>, \<open>Ne v\<close> is
  \<^verbatim>\<open>{field: {"$ne": v}}\<close>, \<open>Regex q opts\<close> is \<^verbatim>\<open>{field: {"$regex": q, "$options": opts}}\<close>.
  The conditions are those of scalar fields (an array-valued field is not embedded).
\<close>

datatype cond = Eq val | Ne val | Regex string string

datatype clause = Field cond | Or "(string \<times> cond) list"

type_synonym query = "(string \<times> clause) list"

text \<open>
  The fragment of the pattern language: a pattern of ordinary characters and \<^verbatim>\<open>.\<close>,
  searched anywhere in the subject. An ordinary character matches itself, up to case
  under option \<^verbatim>\<open>i\<close>; \<^verbatim>\<open>.\<close> matches any character but a newline.
\<close>

definition regex_meta :: "char \<Rightarrow> bool" where
  "regex_meta c = (c \<in> set (CHR 0x5C # ''^$.|?*+()[]{}''))"

definition regex_supported :: "string \<Rightarrow> bool" where
  "regex_supported q = list_all (\<lambda>c. \<not> regex_meta c \<or> c = CHR ''.'') q"

definition fold_case :: "bool \<Rightarrow> char \<Rightarrow> char" where
  "fold_case ci c = (if ci then to_lower c else c)"

fun match_here :: "bool \<Rightarrow> string \<Rightarrow> string \<Rightarrow> bool" where
  "match_here ci [] s = True"
| "match_here ci (p # ps) [] = False"
| "match_here ci (p # ps) (c # cs) =
     ((if p = CHR ''.'' then c \<noteq> CHR 0x0A else fold_case ci p = fold_case ci c)
      \<and> match_here ci ps cs)"

fun regex_search :: "bool \<Rightarrow> string \<Rightarrow> string \<Rightarrow> bool" where
  "regex_search ci q [] = match_here ci q []"
| "regex_search ci q (c # cs) = (match_here ci q (c # cs) \<or> regex_search ci q cs)"

definition match_eq :: "doc \<Rightarrow> string \<Rightarrow> val \<Rightarrow> bool" where
  "match_eq d k v = (map_of d k = Some v \<or> (v = VNone \<and> map_of d k = None))"

fun match_cond :: "doc \<Rightarrow> string \<Rightarrow> cond \<Rightarrow> bool" where
  "match_cond d k (Eq v) = match_eq d k v"
| "match_cond d k (Ne v) = (\<not> match_eq d k v)"
| "match_cond d k (Regex q opts) =
     (case map_of d k of
        Some (VStr s) \<Rightarrow> regex_search (CHR ''i'' \<in> set opts) q s
      | _ \<Rightarrow> False)"

fun match_clause :: "doc \<Rightarrow> string \<times> clause \<Rightarrow> bool" where
  "match_clause d (k, Field c) = match_cond d k c"
| "match_clause d (k, Or alts) = list_ex (\<lambda>(f, c). match_cond d f c) alts"

definition matches :: "query \<Rightarrow> doc \<Rightarrow> bool" where
  "matches filt d = list_all (match_clause d) filt"

fun cond_supported :: "cond \<Rightarrow> bool" where
  "cond_supported (Regex q opts) = regex_supported q"
| "cond_supported _ = True"

fun clause_supported :: "string \<times> clause \<Rightarrow> bool" where
  "clause_supported (k, Field c) = cond_supported c"
| "clause_supported (k, Or alts) = list_all (\<lambda>(f, c). cond_supported c) alts"

subsubsection \<open>The helpers of \<^verbatim>\<open>database.py\<close>\<close>

text \<open>
  Modelled from the spec: \<^verbatim>\<open>create_document\<close> of \<^verbatim>\<open>database.py\<close>, which is not among the
  sources. The spec has the store layer set the timestamps \<^verbatim>\<open>created_at\<close> and
  \<^verbatim>\<open>updated_at\<close>, persist the document under a store-generated identifier and leave
  the other fields as they were handed over; the handlers use the result as the
  identifier in its string form.
\<close>

definition create_document :: "env \<Rightarrow> doc list \<Rightarrow> doc \<Rightarrow> error + doc list \<times> string" where
  "create_document e coll data =
     (let data_dict = AList.update ''updated_at'' (VDatetime (store_now e))
                        (AList.update ''created_at'' (VDatetime (store_now e)) data) in
      case insert_one coll (new_oid e) data_dict of
        Inl err \<Rightarrow> Inl err
      | Inr coll' \<Rightarrow> Inr (coll', str_oid (new_oid e)))"

text \<open>
  Modelled from the spec: \<^verbatim>\<open>get_documents\<close> of \<^verbatim>\<open>database.py\<close>, which is not among the
  sources. The spec has it scan a collection with a filter and return all matches in
  the store's natural order, with no pagination; a limit, when given, keeps the first
  matches.
\<close>

definition get_documents :: "doc list \<Rightarrow> query \<Rightarrow> nat option \<Rightarrow> error + doc list" where
  "get_documents coll filt limit =
     (if \<not> list_all clause_supported filt then Inl Unsupported
      else (let docs = filter (matches filt) coll in
            Inr (case limit of None \<Rightarrow> docs | Some n \<Rightarrow> take n docs)))"

subsection \<open>Request models\<close>

text \<open>
  The pydantic models of \<^verbatim>\<open>main.py\<close> and the \<^verbatim>\<open>Product\<close> model of \<^verbatim>\<open>schemas.py\<close>, as
  records of validated values. An \<^verbatim>\<open>Optional\<close> field is an \<open>option\<close>.
\<close>

record ProductCreate =
  pc_title :: string
  pc_description :: "string option"
  pc_price :: real
  pc_currency :: string
  pc_category :: string
  pc_image_url :: "string option"
  pc_in_stock :: bool

record ProductUpdate =
  pu_title :: "string option"
  pu_description :: "string option"
  pu_price :: "real option"
  pu_currency :: "string option"
  pu_category :: "string option"
  pu_image_url :: "string option"
  pu_in_stock :: "bool option"

record CartItem =
  ci_product_id :: string
  ci_title :: string
  ci_price :: real
  ci_quantity :: int

record CustomerInfo =
  cu_name :: string
  cu_phone :: string
  cu_city :: string
  cu_address :: string
  cu_notes :: "string option"

record OrderCreate =
  oc_items :: "CartItem list"
  oc_customer :: CustomerInfo
  oc_payment_method :: string

record OrderStatusUpdate =
  osu_status :: string
  osu_tracking_note :: "string option"

record Product =
  p_title :: string
  p_description :: "string option"
  p_price :: real
  p_category :: string
  p_in_stock :: bool
  p_image_url :: "string option"

definition opt_str :: "string option \<Rightarrow> val" where
  "opt_str x = (case x of None \<Rightarrow> VNone | Some s \<Rightarrow> VStr s)"

text \<open>One entry of \<^verbatim>\<open>model_dump(exclude_none=True)\<close>: a field that is \<^verbatim>\<open>None\<close> is left out.\<close>

definition dump_opt :: "string \<Rightarrow> ('a \<Rightarrow> val) \<Rightarrow> 'a option \<Rightarrow> doc" where
  "dump_opt k f x = (case x of None \<Rightarrow> [] | Some v \<Rightarrow> [(k, f v)])"

text \<open>\<^verbatim>\<open>Product(title=..., description=..., price=..., category=..., in_stock=...)\<close>:
  the constructor validates \<^verbatim>\<open>price: float = Field(..., ge=0)\<close>; \<^verbatim>\<open>image_url\<close> takes its
  default.\<close>

definition Product_init :: "string \<Rightarrow> string option \<Rightarrow> real \<Rightarrow> string \<Rightarrow> bool \<Rightarrow> error + Product" where
  "Product_init title description price category in_stock =
     (if price \<ge> 0
      then Inr \<lparr>p_title = title, p_description = description, p_price = price,
                p_category = category, p_in_stock = in_stock, p_image_url = None\<rparr>
      else Inl ValidationError)"

definition Product_model_dump :: "Product \<Rightarrow> doc" where
  "Product_model_dump p =
     [(''title'', VStr (p_title p)),
      (''description'', opt_str (p_description p)),
      (''price'', VFloat (p_price p)),
      (''category'', VStr (p_category p)),
      (''in_stock'', VBool (p_in_stock p)),
      (''image_url'', opt_str (p_image_url p))]"

definition ProductUpdate_model_dump_exclude_none :: "ProductUpdate \<Rightarrow> doc" where
  "ProductUpdate_model_dump_exclude_none p =
     dump_opt ''title'' VStr (pu_title p) @
     dump_opt ''description'' VStr (pu_description p) @
     dump_opt ''price'' VFloat (pu_price p) @
     dump_opt ''currency'' VStr (pu_currency p) @
     dump_opt ''category'' VStr (pu_category p) @
     dump_opt ''image_url'' VStr (pu_image_url p) @
     dump_opt ''in_stock'' VBool (pu_in_stock p)"

definition OrderStatusUpdate_model_dump_exclude_none :: "OrderStatusUpdate \<Rightarrow> doc" where
  "OrderStatusUpdate_model_dump_exclude_none p =
     (''status'', VStr (osu_status p)) # dump_opt ''tracking_note'' VStr (osu_tracking_note p)"

definition CartItem_model_dump :: "CartItem \<Rightarrow> val" where
  "CartItem_model_dump i =
     VDict [(''product_id'', VStr (ci_product_id i)),
            (''title'', VStr (ci_title i)),
            (''price'', VFloat (ci_price i)),
            (''quantity'', VInt (ci_quantity i))]"

definition CustomerInfo_model_dump :: "CustomerInfo \<Rightarrow> val" where
  "CustomerInfo_model_dump c =
     VDict [(''name'', VStr (cu_name c)),
            (''phone'', VStr (cu_phone c)),
            (''city'', VStr (cu_city c)),
            (''address'', VStr (cu_address c)),
            (''notes'', opt_str (cu_notes c))]"

subsubsection \<open>Validation of a request body\<close>

text \<open>
  FastAPI validates the JSON body against the model that the handler declares before it
  calls the handler, and answers 422 when the body does not validate. A field of the
  body is absent, \<^verbatim>\<open>null\<close>, a value that validates to the field's type, or a value
  that does not (\<open>Invalid\<close>). The three ways a model declares a field:
  \<^item> \<^verbatim>\<open>f: T\<close> or \<^verbatim>\<open>f: T = Field(...)\<close>: required, and \<^verbatim>\<open>null\<close> is not a \<open>T\<close>;
  \<^item> \<^verbatim>\<open>f: T = d\<close>: the default when absent, and \<^verbatim>\<open>null\<close> is not a \<open>T\<close>;
  \<^item> \<^verbatim>\<open>f: Optional[T] = None\<close>: \<^verbatim>\<open>None\<close> when absent or \<^verbatim>\<open>null\<close>.
\<close>

datatype 'a field = Absent | Null | Given 'a | Invalid

definition ebind :: "error + 'a \<Rightarrow> ('a \<Rightarrow> error + 'b) \<Rightarrow> error + 'b" where
  "ebind m f = (case m of Inl e \<Rightarrow> Inl e | Inr x \<Rightarrow> f x)"

definition required :: "'a field \<Rightarrow> error + 'a" where
  "required x = (case x of Given v \<Rightarrow> Inr v | _ \<Rightarrow> Inl RequestValidationError)"

definition with_default :: "'a \<Rightarrow> 'a field \<Rightarrow> error + 'a" where
  "with_default d x =
     (case x of Absent \<Rightarrow> Inr d | Given v \<Rightarrow> Inr v | _ \<Rightarrow> Inl RequestValidationError)"

definition optional :: "'a field \<Rightarrow> error + 'a option" where
  "optional x =
     (case x of
        Absent \<Rightarrow> Inr None
      | Null \<Rightarrow> Inr None
      | Given v \<Rightarrow> Inr (Some v)
      | Invalid \<Rightarrow> Inl RequestValidationError)"

text \<open>The constraint \<^verbatim>\<open>ge=0\<close> of a price.\<close>

definition ge0 :: "real \<Rightarrow> error + real" where
  "ge0 x = (if x \<ge> 0 then Inr x else Inl RequestValidationError)"

definition ge0_opt :: "real option \<Rightarrow> error + real option" where
  "ge0_opt x = (case x of None \<Rightarrow> Inr None | Some v \<Rightarrow> ebind (ge0 v) (\<lambda>v. Inr (Some v)))"

record ProductCreate_body =
  bpc_title :: "string field"
  bpc_description :: "string field"
  bpc_price :: "real field"
  bpc_currency :: "string field"
  bpc_category :: "string field"
  bpc_image_url :: "string field"
  bpc_in_stock :: "bool field"

record ProductUpdate_body =
  bpu_title :: "string field"
  bpu_description :: "string field"
  bpu_price :: "real field"
  bpu_currency :: "string field"
  bpu_category :: "string field"
  bpu_image_url :: "string field"
  bpu_in_stock :: "bool field"

record OrderStatusUpdate_body =
  bosu_status :: "string field"
  bosu_tracking_note :: "string field"

definition validate_ProductCreate :: "ProductCreate_body \<Rightarrow> error + ProductCreate" where
  "validate_ProductCreate b =
     ebind (required (bpc_title b)) (\<lambda>title.
     ebind (optional (bpc_description b)) (\<lambda>description.
     ebind (ebind (required (bpc_price b)) ge0) (\<lambda>price.
     ebind (with_default ''SYP'' (bpc_currency b)) (\<lambda>currency.
     ebind (required (bpc_category b)) (\<lambda>category.
     ebind (optional (bpc_image_url b)) (\<lambda>image_url.
     ebind (with_default True (bpc_in_stock b)) (\<lambda>in_stock.
       Inr \<lparr>pc_title = title, pc_description = description, pc_price = price,
            pc_currency = currency, pc_category = category, pc_image_url = image_url,
            pc_in_stock = in_stock\<rparr>)))))))"

definition validate_ProductUpdate :: "ProductUpdate_body \<Rightarrow> error + ProductUpdate" where
  "validate_ProductUpdate b =
     ebind (optional (bpu_title b)) (\<lambda>title.
     ebind (optional (bpu_description b)) (\<lambda>description.
     ebind (ebind (optional (bpu_price b)) ge0_opt) (\<lambda>price.
     ebind (optional (bpu_currency b)) (\<lambda>currency.
     ebind (optional (bpu_category b)) (\<lambda>category.
     ebind (optional (bpu_image_url b)) (\<lambda>image_url.
     ebind (optional (bpu_in_stock b)) (\<lambda>in_stock.
       Inr \<lparr>pu_title = title, pu_description = description, pu_price = price,
            pu_currency = currency, pu_category = category, pu_image_url = image_url,
            pu_in_stock = in_stock\<rparr>)))))))"

definition validate_OrderStatusUpdate :: "OrderStatusUpdate_body \<Rightarrow> error + OrderStatusUpdate" where
  "validate_OrderStatusUpdate b =
     ebind (required (bosu_status b)) (\<lambda>status.
     ebind (optional (bosu_tracking_note b)) (\<lambda>tracking_note.
       Inr \<lparr>osu_status = status, osu_tracking_note = tracking_note\<rparr>))"

subsection \<open>Products\<close>

text \<open>\<^verbatim>\<open>[serialize_doc(d) for d in docs]\<close>: the first document that fails to serialize
  ends the comprehension.\<close>

fun serialize_all :: "doc list \<Rightarrow> error + response list" where
  "serialize_all [] = Inr []"
| "serialize_all (d # ds) =
     ebind (serialize_doc (Some d)) (\<lambda>r. ebind (serialize_all ds) (\<lambda>rs. Inr (r # rs)))"

text \<open>\<^verbatim>\<open>not doc\<close> for the result of \<^verbatim>\<open>find_one\<close>: \<^verbatim>\<open>None\<close> or an empty dict.\<close>

definition falsy_doc :: "doc option \<Rightarrow> bool" where
  "falsy_doc doc = (case doc of None \<Rightarrow> True | Some d \<Rightarrow> d = [])"

text \<open>
  \<^verbatim>\<open>
  def list_products(q: Optional[str] = Query(None), category: Optional[str] = None):
      filt = {"in_stock": {"$ne": False}}
      if q:
          filt["$or"] = [
              {"title": {"$regex": q, "$options": "i"}},
              {"description": {"$regex": q, "$options": "i"}},
              {"category": {"$regex": q, "$options": "i"}},
          ]
      if category:
          filt["category"] = category
      docs = get_documents("product", filt, limit=None)
      return [serialize_doc(d) for d in docs]
  \<close>
\<close>

definition products_filter :: "string option \<Rightarrow> string option \<Rightarrow> query" where
  "products_filter q category =
     (let filt = [(''in_stock'', Field (Ne (VBool False)))];
          filt = (case q of
                    None \<Rightarrow> filt
                  | Some qs \<Rightarrow>
                      if qs = [] then filt
                      else AList.update ''$or''
                             (Or [(''title'', Regex qs ''i''),
                                  (''description'', Regex qs ''i''),
                                  (''category'', Regex qs ''i'')]) filt)
      in (case category of
            None \<Rightarrow> filt
          | Some c \<Rightarrow>
              if c = [] then filt
              else AList.update ''category'' (Field (Eq (VStr c))) filt))"

definition list_products :: "store \<Rightarrow> string option \<Rightarrow> string option \<Rightarrow> store \<times> (error + response)" where
  "list_products s q category =
     (case get_documents (product_coll s) (products_filter q category) None of
        Inl err \<Rightarrow> (s, Inl err)
      | Inr docs \<Rightarrow> (s, ebind (serialize_all docs) (\<lambda>rs. Inr (RList rs))))"

text \<open>
  \<^verbatim>\<open>
  def get_product(product_id: str):
      doc = db["product"].find_one({"_id": to_object_id(product_id)})
      if not doc:
          raise HTTPException(status_code=404, detail="Product not found")
      return serialize_doc(doc)
  \<close>
\<close>

definition get_product :: "store \<Rightarrow> string \<Rightarrow> store \<times> (error + response)" where
  "get_product s product_id =
     (case to_object_id product_id of
        Inl err \<Rightarrow> (s, Inl err)
      | Inr oid \<Rightarrow>
          (let doc = find_one (product_coll s) oid in
           if falsy_doc doc then (s, Inl (HTTPException 404 ''Product not found''))
           else (s, serialize_doc doc)))"

text \<open>
  \<^verbatim>\<open>
  def create_product(payload: ProductCreate, x_admin_key: Optional[str] = Header(None)):
      require_admin(x_admin_key)
      product = ProductSchema(
          title=payload.title, description=payload.description, price=payload.price,
          category=payload.category, in_stock=payload.in_stock,
      ).model_dump()
      if payload.image_url:
          product["image_url"] = payload.image_url
      product["currency"] = payload.currency
      inserted_id = create_document("product", product)
      doc = db["product"].find_one({"_id": ObjectId(inserted_id)})
      return serialize_doc(doc)
  \<close>
\<close>

definition create_product ::
  "env \<Rightarrow> store \<Rightarrow> ProductCreate \<Rightarrow> string option \<Rightarrow> store \<times> (error + response)" where
  "create_product e s payload x_admin_key =
     (case require_admin e x_admin_key of
        Inl err \<Rightarrow> (s, Inl err)
      | Inr _ \<Rightarrow>
     (case Product_init (pc_title payload) (pc_description payload) (pc_price payload)
             (pc_category payload) (pc_in_stock payload) of
        Inl err \<Rightarrow> (s, Inl err)
      | Inr p \<Rightarrow>
     (let product = Product_model_dump p;
          product = (case pc_image_url payload of
                       None \<Rightarrow> product
                     | Some u \<Rightarrow>
                         if u = [] then product
                         else AList.update ''image_url'' (VStr u) product);
          product = AList.update ''currency'' (VStr (pc_currency payload)) product
      in (case create_document e (product_coll s) product of
            Inl err \<Rightarrow> (s, Inl err)
          | Inr (coll', inserted_id) \<Rightarrow>
              (let s' = s\<lparr>product_coll := coll'\<rparr> in
               case parse_oid inserted_id of
                 None \<Rightarrow> (s', Inl InvalidId)
               | Some oid \<Rightarrow> (s', serialize_doc (find_one (product_coll s') oid)))))))"

text \<open>
  \<^verbatim>\<open>
  def update_product(product_id: str, payload: ProductUpdate, x_admin_key: Optional[str] = Header(None)):
      require_admin(x_admin_key)
      updates = {k: v for k, v in payload.model_dump(exclude_none=True).items()}
      if not updates:
          return {"updated": False}
      updates["updated_at"] = datetime.utcnow()
      res = db["product"].update_one({"_id": to_object_id(product_id)}, {"$set": updates})
      if res.matched_count == 0:
          raise HTTPException(status_code=404, detail="Product not found")
      doc = db["product"].find_one({"_id": to_object_id(product_id)})
      return serialize_doc(doc)
  \<close>
\<close>

definition update_product ::
  "env \<Rightarrow> store \<Rightarrow> string \<Rightarrow> ProductUpdate \<Rightarrow> string option \<Rightarrow> store \<times> (error + response)" where
  "update_product e s product_id payload x_admin_key =
     (case require_admin e x_admin_key of
        Inl err \<Rightarrow> (s, Inl err)
      | Inr _ \<Rightarrow>
     (let updates = ProductUpdate_model_dump_exclude_none payload in
      if updates = [] then (s, Inr (RDict [(''updated'', VBool False)]))
      else
     (let updates = AList.update ''updated_at'' (VDatetime (utcnow e)) updates in
      case to_object_id product_id of
        Inl err \<Rightarrow> (s, Inl err)
      | Inr oid \<Rightarrow>
     (case update_one (product_coll s) oid updates of
        (coll', matched_count) \<Rightarrow>
     (let s' = s\<lparr>product_coll := coll'\<rparr> in
      if matched_count = 0 then (s', Inl (HTTPException 404 ''Product not found''))
      else (case to_object_id product_id of
              Inl err \<Rightarrow> (s', Inl err)
            | Inr oid' \<Rightarrow> (s', serialize_doc (find_one (product_coll s') oid'))))))))"

text \<open>
  \<^verbatim>\<open>
  def delete_product(product_id: str, x_admin_key: Optional[str] = Header(None)):
      require_admin(x_admin_key)
      res = db["product"].delete_one({"_id": to_object_id(product_id)})
      if res.deleted_count == 0:
          raise HTTPException(status_code=404, detail="Product not found")
      return {"deleted": True}
  \<close>
\<close>

definition delete_product ::
  "env \<Rightarrow> store \<Rightarrow> string \<Rightarrow> string option \<Rightarrow> store \<times> (error + response)" where
  "delete_product e s product_id x_admin_key =
     (case require_admin e x_admin_key of
        Inl err \<Rightarrow> (s, Inl err)
      | Inr _ \<Rightarrow>
     (case to_object_id product_id of
        Inl err \<Rightarrow> (s, Inl err)
      | Inr oid \<Rightarrow>
     (case delete_one (product_coll s) oid of
        (coll', deleted_count) \<Rightarrow>
     (let s' = s\<lparr>product_coll := coll'\<rparr> in
      if deleted_count = 0 then (s', Inl (HTTPException 404 ''Product not found''))
      else (s', Inr (RDict [(''deleted'', VBool True)]))))))"

subsection \<open>Orders\<close>

text \<open>\<^verbatim>\<open>sum(xs)\<close>: the elements added to 0 from the left. A \<^verbatim>\<open>float\<close> is embedded as
  a real number: the rounding of binary floating-point arithmetic and its overflow are
  outside the embedding, so the value of a total is that of exact arithmetic, and no
  property below is about it.\<close>

definition py_sum :: "real list \<Rightarrow> real" where
  "py_sum xs = foldl (\<lambda>acc x. acc + x) 0 xs"

text \<open>
  \<^verbatim>\<open>
  def create_order(payload: OrderCreate):
      if payload.payment_method != "COD":
          raise HTTPException(status_code=400, detail="Only COD is supported")
      if len(payload.items) == 0:
          raise HTTPException(status_code=400, detail="Cart is empty")
      total = sum(i.price * i.quantity for i in payload.items)
      order = {
          "items": [i.model_dump() for i in payload.items],
          "customer": payload.customer.model_dump(),
          "payment_method": "COD",
          "status": "new",
          "total": total,
          "currency": "SYP",
          "placed_at": datetime.utcnow(),
      }
      inserted_id = create_document("order", order)
      doc = db["order"].find_one({"_id": ObjectId(inserted_id)})
      return serialize_doc(doc)
  \<close>
\<close>

definition create_order :: "env \<Rightarrow> store \<Rightarrow> OrderCreate \<Rightarrow> store \<times> (error + response)" where
  "create_order e s payload =
     (if oc_payment_method payload \<noteq> ''COD''
      then (s, Inl (HTTPException 400 ''Only COD is supported''))
      else if length (oc_items payload) = 0
      then (s, Inl (HTTPException 400 ''Cart is empty''))
      else
     (let total = py_sum (map (\<lambda>i. ci_price i * of_int (ci_quantity i)) (oc_items payload));
          order = [(''items'', VList (map CartItem_model_dump (oc_items payload))),
                   (''customer'', CustomerInfo_model_dump (oc_customer payload)),
                   (''payment_method'', VStr ''COD''),
                   (''status'', VStr ''new''),
                   (''total'', VFloat total),
                   (''currency'', VStr ''SYP''),
                   (''placed_at'', VDatetime (utcnow e))]
      in (case create_document e (order_coll s) order of
            Inl err \<Rightarrow> (s, Inl err)
          | Inr (coll', inserted_id) \<Rightarrow>
              (let s' = s\<lparr>order_coll := coll'\<rparr> in
               case parse_oid inserted_id of
                 None \<Rightarrow> (s', Inl InvalidId)
               | Some oid \<Rightarrow> (s', serialize_doc (find_one (order_coll s') oid))))))"

text \<open>
  \<^verbatim>\<open>
  def list_orders(x_admin_key: Optional[str] = Header(None), status: Optional[str] = None):
      require_admin(x_admin_key)
      filt = {}
      if status:
          filt["status"] = status
      docs = get_documents("order", filt)
      docs.sort(key=lambda d: d.get("placed_at", datetime.utcnow()), reverse=True)
      return [serialize_doc(d) for d in docs]
  \<close>
  The sort is stable: among equal keys the order of \<^verbatim>\<open>docs\<close> is kept. Only keys that
  are datetimes are embedded.
\<close>

fun lex_less :: "nat list \<Rightarrow> nat list \<Rightarrow> bool" where
  "lex_less (a # as) (b # bs) = (a < b \<or> (a = b \<and> lex_less as bs))"
| "lex_less _ _ = False"

definition dt_less :: "datetime \<Rightarrow> datetime \<Rightarrow> bool" where
  "dt_less a b =
     lex_less [dt_year a, dt_month a, dt_day a, dt_hour a, dt_minute a, dt_second a, dt_microsecond a]
              [dt_year b, dt_month b, dt_day b, dt_hour b, dt_minute b, dt_second b, dt_microsecond b]"

definition sort_key :: "env \<Rightarrow> doc \<Rightarrow> datetime option" where
  "sort_key e d =
     (case map_of d ''placed_at'' of
        None \<Rightarrow> Some (utcnow e)
      | Some (VDatetime t) \<Rightarrow> Some t
      | Some _ \<Rightarrow> None)"

fun keyed :: "env \<Rightarrow> doc list \<Rightarrow> (datetime \<times> doc) list option" where
  "keyed e [] = Some []"
| "keyed e (d # ds) =
     (case sort_key e d of
        None \<Rightarrow> None
      | Some t \<Rightarrow> (case keyed e ds of None \<Rightarrow> None | Some r \<Rightarrow> Some ((t, d) # r)))"

fun insert_desc :: "datetime \<times> doc \<Rightarrow> (datetime \<times> doc) list \<Rightarrow> (datetime \<times> doc) list" where
  "insert_desc x [] = [x]"
| "insert_desc x (y # ys) =
     (if dt_less (fst x) (fst y) then y # insert_desc x ys else x # y # ys)"

definition sort_desc :: "(datetime \<times> doc) list \<Rightarrow> doc list" where
  "sort_desc xs = map snd (foldr insert_desc xs [])"

definition list_orders ::
  "env \<Rightarrow> store \<Rightarrow> string option \<Rightarrow> string option \<Rightarrow> store \<times> (error + response)" where
  "list_orders e s x_admin_key status =
     (case require_admin e x_admin_key of
        Inl err \<Rightarrow> (s, Inl err)
      | Inr _ \<Rightarrow>
     (let filt = (case status of
                    None \<Rightarrow> []
                  | Some st \<Rightarrow> if st = [] then [] else [(''status'', Field (Eq (VStr st)))])
      in (case get_documents (order_coll s) filt None of
            Inl err \<Rightarrow> (s, Inl err)
          | Inr docs \<Rightarrow>
              (case keyed e docs of
                 None \<Rightarrow> (s, Inl Unsupported)
               | Some ks \<Rightarrow>
                   (s, ebind (serialize_all (sort_desc ks)) (\<lambda>rs. Inr (RList rs)))))))"

text \<open>
  \<^verbatim>\<open>
  def get_order(order_id: str, x_admin_key: Optional[str] = Header(None)):
      require_admin(x_admin_key)
      doc = db["order"].find_one({"_id": to_object_id(order_id)})
      if not doc:
          raise HTTPException(status_code=404, detail="Order not found")
      return serialize_doc(doc)
  \<close>
\<close>

definition get_order ::
  "env \<Rightarrow> store \<Rightarrow> string \<Rightarrow> string option \<Rightarrow> store \<times> (error + response)" where
  "get_order e s order_id x_admin_key =
     (case require_admin e x_admin_key of
        Inl err \<Rightarrow> (s, Inl err)
      | Inr _ \<Rightarrow>
     (case to_object_id order_id of
        Inl err \<Rightarrow> (s, Inl err)
      | Inr oid \<Rightarrow>
          (let doc = find_one (order_coll s) oid in
           if falsy_doc doc then (s, Inl (HTTPException 404 ''Order not found''))
           else (s, serialize_doc doc))))"

text \<open>
  \<^verbatim>\<open>
  def update_order(order_id: str, payload: OrderStatusUpdate, x_admin_key: Optional[str] = Header(None)):
      require_admin(x_admin_key)
      updates = payload.model_dump(exclude_none=True)
      updates["updated_at"] = datetime.utcnow()
      res = db["order"].update_one({"_id": to_object_id(order_id)}, {"$set": updates})
      if res.matched_count == 0:
          raise HTTPException(status_code=404, detail="Order not found")
      doc = db["order"].find_one({"_id": to_object_id(order_id)})
      return serialize_doc(doc)
  \<close>
\<close>

definition update_order ::
  "env \<Rightarrow> store \<Rightarrow> string \<Rightarrow> OrderStatusUpdate \<Rightarrow> string option \<Rightarrow> store \<times> (error + response)" where
  "update_order e s order_id payload x_admin_key =
     (case require_admin e x_admin_key of
        Inl err \<Rightarrow> (s, Inl err)
      | Inr _ \<Rightarrow>
     (let updates = OrderStatusUpdate_model_dump_exclude_none payload;
          updates = AList.update ''updated_at'' (VDatetime (utcnow e)) updates
      in case to_object_id order_id of
        Inl err \<Rightarrow> (s, Inl err)
      | Inr oid \<Rightarrow>
     (case update_one (order_coll s) oid updates of
        (coll', matched_count) \<Rightarrow>
     (let s' = s\<lparr>order_coll := coll'\<rparr> in
      if matched_count = 0 then (s', Inl (HTTPException 404 ''Order not found''))
      else (case to_object_id order_id of
              Inl err \<Rightarrow> (s', Inl err)
            | Inr oid' \<Rightarrow> (s', serialize_doc (find_one (order_coll s') oid')))))))"

subsection \<open>Routes that take a request body\<close>

text \<open>
  \<^verbatim>\<open>@app.post("/api/products")\<close>, \<^verbatim>\<open>@app.patch("/api/products/{product_id}")\<close> and
  \<^verbatim>\<open>@app.patch("/api/orders/{order_id}")\<close>: the body is validated against the model of
  the handler's \<^verbatim>\<open>payload\<close> parameter; a body that does not validate is answered
  without calling the handler.
\<close>

definition post_api_products ::
  "env \<Rightarrow> store \<Rightarrow> ProductCreate_body \<Rightarrow> string option \<Rightarrow> store \<times> (error + response)" where
  "post_api_products e s body x_admin_key =
     (case validate_ProductCreate body of
        Inl err \<Rightarrow> (s, Inl err)
      | Inr payload \<Rightarrow> create_product e s payload x_admin_key)"

definition patch_api_products ::
  "env \<Rightarrow> store \<Rightarrow> string \<Rightarrow> ProductUpdate_body \<Rightarrow> string option \<Rightarrow> store \<times> (error + response)" where
  "patch_api_products e s product_id body x_admin_key =
     (case validate_ProductUpdate body of
        Inl err \<Rightarrow> (s, Inl err)
      | Inr payload \<Rightarrow> update_product e s product_id payload x_admin_key)"

definition patch_api_orders ::
  "env \<Rightarrow> store \<Rightarrow> string \<Rightarrow> OrderStatusUpdate_body \<Rightarrow> string option \<Rightarrow> store \<times> (error + response)" where
  "patch_api_orders e s order_id body x_admin_key =
     (case validate_OrderStatusUpdate body of
        Inl err \<Rightarrow> (s, Inl err)
      | Inr payload \<Rightarrow> update_order e s order_id payload x_admin_key)"

subsection \<open>Auxiliary notions for the properties\<close>

text \<open>What serialization makes of a field that may hold a datetime.\<close>

definition iso_val :: "val option \<Rightarrow> val option" where
  "iso_val x = (case x of Some (VDatetime t) \<Rightarrow> Some (VStr (isoformat t)) | _ \<Rightarrow> x)"

subsection \<open>A sample environment and store\<close>

definition t_old :: datetime where
  "t_old = \<lparr>dt_year = 2023, dt_month = 12, dt_day = 31, dt_hour = 23, dt_minute = 59,
            dt_second = 58, dt_microsecond = 0\<rparr>"

definition env0 :: env where
  "env0 = \<lparr>utcnow = \<lparr>dt_year = 2024, dt_month = 1, dt_day = 2, dt_hour = 3, dt_minute = 4,
                      dt_second = 5, dt_microsecond = 678901\<rparr>,
           store_now = \<lparr>dt_year = 2024, dt_month = 1, dt_day = 2, dt_hour = 3, dt_minute = 4,
                         dt_second = 6, dt_microsecond = 0\<rparr>,
           new_oid = ObjectId ''65a1b2c3d4e5f60718293a4b'',
           ADMIN_KEY = None\<rparr>"

definition tea :: doc where
  "tea = [(''_id'', VObjectId (ObjectId ''0123456789abcdef01234567'')),
          (''title'', VStr ''Tea''),
          (''description'', VNone),
          (''price'', VFloat 1000),
          (''category'', VStr ''drinks''),
          (''in_stock'', VBool True),
          (''image_url'', VNone),
          (''currency'', VStr ''SYP''),
          (''created_at'', VDatetime t_old),
          (''updated_at'', VDatetime t_old)]"

definition mug :: doc where
  "mug = [(''_id'', VObjectId (ObjectId ''0123456789abcdef01234568'')),
          (''title'', VStr ''Mug''),
          (''description'', VStr ''blue''),
          (''price'', VFloat 500),
          (''category'', VStr ''kitchen''),
          (''in_stock'', VBool False),
          (''image_url'', VNone),
          (''currency'', VStr ''SYP''),
          (''created_at'', VDatetime t_old),
          (''updated_at'', VDatetime t_old)]"

definition order0 :: doc where
  "order0 = [(''_id'', VObjectId (ObjectId ''aaaaaaaaaaaaaaaaaaaaaaaa'')),
             (''items'', VList [VDict [(''product_id'', VStr ''0123456789abcdef01234567''),
                                       (''title'', VStr ''Tea''),
                                       (''price'', VFloat 1000),
                                       (''quantity'', VInt 1)]]),
             (''customer'', VDict [(''name'', VStr ''Rima''),
                                   (''phone'', VStr ''0999''),
                                   (''city'', VStr ''Homs''),
                                   (''address'', VStr ''Main street''),
                                   (''notes'', VNone)]),
             (''payment_method'', VStr ''COD''),
             (''status'', VStr ''new''),
             (''total'', VFloat 1000),
             (''currency'', VStr ''SYP''),
             (''placed_at'', VDatetime t_old),
             (''created_at'', VDatetime t_old),
             (''updated_at'', VDatetime t_old)]"

definition store0 :: store where
  "store0 = \<lparr>product_coll = [tea, mug], order_coll = [order0]\<rparr>"

definition customer0 :: CustomerInfo where
  "customer0 = \<lparr>cu_name = ''Rima'', cu_phone = ''0999'', cu_city = ''Homs'',
                 cu_address = ''Main street'', cu_notes = None\<rparr>"

definition cart0 :: OrderCreate where
  "cart0 = \<lparr>oc_items = [\<lparr>ci_product_id = ''0123456789abcdef01234567'', ci_title = ''Tea'',
                           ci_price = 1000, ci_quantity = 2\<rparr>,
                          \<lparr>ci_product_id = ''0123456789abcdef01234568'', ci_title = ''Mug'',
                           ci_price = 500, ci_quantity = 1\<rparr>],
             oc_customer = customer0,
             oc_payment_method = ''COD''\<rparr>"

definition coffee :: ProductCreate where
  "coffee = \<lparr>pc_title = ''Coffee'', pc_description = None, pc_price = 1500,
              pc_currency = ''SYP'', pc_category = ''drinks'', pc_image_url = None,
              pc_in_stock = True\<rparr>"

definition only_in_stock :: ProductUpdate where
  "only_in_stock = \<lparr>pu_title = None, pu_description = None, pu_price = None,
                     pu_currency = None, pu_category = None, pu_image_url = None,
                     pu_in_stock = Some False\<rparr>"

definition confirm :: OrderStatusUpdate where
  "confirm = \<lparr>osu_status = ''confirmed'', osu_tracking_note = None\<rparr>"

text \<open>A body for the product update that supplies no field.\<close>

definition no_fields :: ProductUpdate_body where
  "no_fields = \<lparr>bpu_title = Absent, bpu_description = Absent, bpu_price = Absent,
                 bpu_currency = Absent, bpu_category = Absent, bpu_image_url = Absent,
                 bpu_in_stock = Absent\<rparr>"

text \<open>A request body in which every \<^verbatim>\<open>null\<close> is replaced by the absence of the field.\<close>

definition null_as_absent :: "'a field \<Rightarrow> 'a field" where
  "null_as_absent x = (case x of Null \<Rightarrow> Absent | _ \<Rightarrow> x)"

definition ProductUpdate_nulls_absent :: "ProductUpdate_body \<Rightarrow> ProductUpdate_body" where
  "ProductUpdate_nulls_absent b =
     \<lparr>bpu_title = null_as_absent (bpu_title b),
      bpu_description = null_as_absent (bpu_description b),
      bpu_price = null_as_absent (bpu_price b),
      bpu_currency = null_as_absent (bpu_currency b),
      bpu_category = null_as_absent (bpu_category b),
      bpu_image_url = null_as_absent (bpu_image_url b),
      bpu_in_stock = null_as_absent (bpu_in_stock b)\<rparr>"

definition OrderStatusUpdate_nulls_absent :: "OrderStatusUpdate_body \<Rightarrow> OrderStatusUpdate_body" where
  "OrderStatusUpdate_nulls_absent b =
     \<lparr>bosu_status = null_as_absent (bosu_status b),
      bosu_tracking_note = null_as_absent (bosu_tracking_note b)\<rparr>"

text \<open>No field of a document of the collection has become \<^verbatim>\<open>null\<close>.\<close>

definition none_cleared :: "doc list \<Rightarrow> doc list \<Rightarrow> bool" where
  "none_cleared before after =
     list_all2 (\<lambda>d d'. \<forall>k. map_of d' k = Some VNone \<longrightarrow> map_of d k = Some VNone) before after"

text \<open>Field \<open>k\<close> has the same value in every document of the collection as before.\<close>

definition field_kept :: "string \<Rightarrow> doc list \<Rightarrow> doc list \<Rightarrow> bool" where
  "field_kept k before after = list_all2 (\<lambda>d d'. map_of d' k = map_of d k) before after"

text \<open>Request bodies with an explicit \<^verbatim>\<open>null\<close>.\<close>

definition null_description :: ProductUpdate_body where
  "null_description = \<lparr>bpu_title = Absent, bpu_description = Null, bpu_price = Absent,
                        bpu_currency = Absent, bpu_category = Absent, bpu_image_url = Absent,
                        bpu_in_stock = Given True\<rparr>"

definition null_note :: OrderStatusUpdate_body where
  "null_note = \<lparr>bosu_status = Given ''confirmed'', bosu_tracking_note = Null\<rparr>"

text \<open>Bodies for the order status update: a tracking note alone, and a status alone.\<close>

definition only_note :: OrderStatusUpdate_body where
  "only_note = \<lparr>bosu_status = Absent, bosu_tracking_note = Given ''left the depot''\<rparr>"

definition only_status :: OrderStatusUpdate_body where
  "only_status = \<lparr>bosu_status = Given ''confirmed'', bosu_tracking_note = Absent\<rparr>"

text \<open>A body for product creation whose title is the empty string.\<close>

definition empty_title :: ProductCreate_body where
  "empty_title = \<lparr>bpc_title = Given [], bpc_description = Absent, bpc_price = Given 1500,
                    bpc_currency = Absent, bpc_category = Given ''drinks'', bpc_image_url = Absent,
                    bpc_in_stock = Absent\<rparr>"

text \<open>
  The ISO 8601 extended format of a date and time, \<^verbatim>\<open>YYYY-MM-DDTHH:MM:SS\<close> with an
  optional fraction \<^verbatim>\<open>.ffffff\<close> of a second, read independently of the renderer above:
  \<open>dec\<close> is the number that a string of decimal digits denotes, and \<open>iso8601_of s t\<close>
  says that \<open>s\<close> has this shape and that its digit groups denote the fields of \<open>t\<close>.
  \<open>valid_datetime\<close> gives the ranges of the fields of a \<^verbatim>\<open>datetime\<close>.
\<close>

definition is_digit :: "char \<Rightarrow> bool" where
  "is_digit c = (c \<in> set ''0123456789'')"

definition digit_val :: "char \<Rightarrow> nat" where
  "digit_val c = length (takeWhile (\<lambda>x. x \<noteq> c) ''0123456789'')"

definition dec :: "string \<Rightarrow> nat" where
  "dec s = foldl (\<lambda>n c. 10 * n + digit_val c) 0 s"

definition digits :: "string \<Rightarrow> bool" where
  "digits s = list_all is_digit s"

definition valid_datetime :: "datetime \<Rightarrow> bool" where
  "valid_datetime t =
     (1 \<le> dt_year t \<and> dt_year t \<le> 9999 \<and> 1 \<le> dt_month t \<and> dt_month t \<le> 12 \<and>
      1 \<le> dt_day t \<and> dt_day t \<le> 31 \<and> dt_hour t < 24 \<and> dt_minute t < 60 \<and>
      dt_second t < 60 \<and> dt_microsecond t < 1000000)"

definition iso8601_of :: "string \<Rightarrow> datetime \<Rightarrow> bool" where
  "iso8601_of s t =
     (digits (take 4 s) \<and> dec (take 4 s) = dt_year t \<and> s ! 4 = CHR ''-'' \<and>
      digits (take 2 (drop 5 s)) \<and> dec (take 2 (drop 5 s)) = dt_month t \<and> s ! 7 = CHR ''-'' \<and>
      digits (take 2 (drop 8 s)) \<and> dec (take 2 (drop 8 s)) = dt_day t \<and> s ! 10 = CHR ''T'' \<and>
      digits (take 2 (drop 11 s)) \<and> dec (take 2 (drop 11 s)) = dt_hour t \<and> s ! 13 = CHR '':'' \<and>
      digits (take 2 (drop 14 s)) \<and> dec (take 2 (drop 14 s)) = dt_minute t \<and> s ! 16 = CHR '':'' \<and>
      digits (take 2 (drop 17 s)) \<and> dec (take 2 (drop 17 s)) = dt_second t \<and>
      (if dt_microsecond t = 0 then length s = 19
       else length s = 26 \<and> s ! 19 = CHR ''.'' \<and>
            digits (drop 20 s) \<and> dec (drop 20 s) = dt_microsecond t))"

text \<open>A stored document whose timestamps carry a fraction of a second.\<close>

definition t_frac :: datetime where
  "t_frac = \<lparr>dt_year = 2024, dt_month = 1, dt_day = 2, dt_hour = 3, dt_minute = 4,
             dt_second = 5, dt_microsecond = 678000\<rparr>"

definition stamped :: doc where
  "stamped = [(''_id'', VObjectId (ObjectId ''bbbbbbbbbbbbbbbbbbbbbbbb'')),
              (''status'', VStr ''new''),
              (''placed_at'', VDatetime t_frac),
              (''note'', VDatetime t_frac)]"








section \<open>Properties\<close>

subsection \<open>Lemmas on serialization and on the store\<close>

lemma serialize_doc_not_http: "serialize_doc d \<noteq> Inl (HTTPException c m)"
  by (auto simp: serialize_doc_def split: option.splits)

lemma serialize_all_not_http: "serialize_all ds \<noteq> Inl (HTTPException c m)"
  by (induction ds) (auto simp: ebind_def serialize_doc_not_http split: sum.splits)

lemma require_admin_fail:
  "x_admin_key \<noteq> Some (getenv (ADMIN_KEY e) ''admin123'') \<Longrightarrow>
   require_admin e x_admin_key = Inl (HTTPException 401 ''Unauthorized: invalid admin key'')"
  by (simp add: require_admin_def)

lemma require_admin_ok:
  "x_admin_key = Some (getenv (ADMIN_KEY e) ''admin123'') \<Longrightarrow> require_admin e x_admin_key = Inr ()"
  by (simp add: require_admin_def)

subsection \<open>The admin gate\<close>

text \<open>
  C3. A call of product create, update or delete, of order listing, single fetch or
  status update whose credential is absent or differs from the configured secret raises
  401 Unauthorized and leaves the store as it was. The secret is \<^verbatim>\<open>admin123\<close> when
  the configuration is unset. Product listing, product fetch and order creation take no
  credential and never answer 401.
\<close>

theorem admin_gate_unauthorized:
  assumes "x_admin_key \<noteq> Some (getenv (ADMIN_KEY e) ''admin123'')"
  shows "create_product e s pc x_admin_key = (s, Inl (HTTPException 401 ''Unauthorized: invalid admin key''))
       \<and> update_product e s pid pu x_admin_key = (s, Inl (HTTPException 401 ''Unauthorized: invalid admin key''))
       \<and> delete_product e s pid x_admin_key = (s, Inl (HTTPException 401 ''Unauthorized: invalid admin key''))
       \<and> list_orders e s x_admin_key status = (s, Inl (HTTPException 401 ''Unauthorized: invalid admin key''))
       \<and> get_order e s oid x_admin_key = (s, Inl (HTTPException 401 ''Unauthorized: invalid admin key''))
       \<and> update_order e s oid osu x_admin_key = (s, Inl (HTTPException 401 ''Unauthorized: invalid admin key''))
       \<and> getenv None ''admin123'' = ''admin123''
       \<and> snd (list_products s q category) \<noteq> Inl (HTTPException 401 m)
       \<and> snd (get_product s pid) \<noteq> Inl (HTTPException 401 m)
       \<and> snd (create_order e s oc) \<noteq> Inl (HTTPException 401 m)"
proof -
  note ra = require_admin_fail [OF assms]
  have 1: "create_product e s pc x_admin_key = (s, Inl (HTTPException 401 ''Unauthorized: invalid admin key''))"
    by (simp add: create_product_def ra)
  have 2: "update_product e s pid pu x_admin_key = (s, Inl (HTTPException 401 ''Unauthorized: invalid admin key''))"
    by (simp add: update_product_def ra)
  have 3: "delete_product e s pid x_admin_key = (s, Inl (HTTPException 401 ''Unauthorized: invalid admin key''))"
    by (simp add: delete_product_def ra)
  have 4: "list_orders e s x_admin_key status = (s, Inl (HTTPException 401 ''Unauthorized: invalid admin key''))"
    by (simp add: list_orders_def ra)
  have 5: "get_order e s oid x_admin_key = (s, Inl (HTTPException 401 ''Unauthorized: invalid admin key''))"
    by (simp add: get_order_def ra)
  have 6: "update_order e s oid osu x_admin_key = (s, Inl (HTTPException 401 ''Unauthorized: invalid admin key''))"
    by (simp add: update_order_def ra)
  have 7: "getenv None ''admin123'' = ''admin123''"
    by (simp add: getenv_def)
  have 8: "snd (list_products s q category) \<noteq> Inl (HTTPException 401 m)"
    by (auto simp: list_products_def get_documents_def ebind_def serialize_all_not_http
             split: sum.splits if_splits)
  have 9: "snd (get_product s pid) \<noteq> Inl (HTTPException 401 m)"
    by (auto simp: get_product_def to_object_id_def Let_def serialize_doc_not_http
             split: sum.splits option.splits if_splits)
  have 10: "snd (create_order e s oc) \<noteq> Inl (HTTPException 401 m)"
    by (auto simp: create_order_def create_document_def insert_one_def Let_def serialize_doc_not_http
             split: sum.splits option.splits if_splits prod.splits)
  from 1 2 3 4 5 6 7 8 9 10 show ?thesis by blast
qed

theorem admin_gate_unauthorized_witness:
  "Some ''letmein'' \<noteq> Some (getenv (ADMIN_KEY env0) ''admin123'')
   \<and> create_product env0 store0 coffee (Some ''letmein'') =
       (store0, Inl (HTTPException 401 ''Unauthorized: invalid admin key''))
   \<and> update_product env0 store0 ''0123456789abcdef01234567'' only_in_stock (Some ''letmein'') =
       (store0, Inl (HTTPException 401 ''Unauthorized: invalid admin key''))
   \<and> delete_product env0 store0 ''0123456789abcdef01234567'' (Some ''letmein'') =
       (store0, Inl (HTTPException 401 ''Unauthorized: invalid admin key''))
   \<and> list_orders env0 store0 (Some ''letmein'') None =
       (store0, Inl (HTTPException 401 ''Unauthorized: invalid admin key''))
   \<and> get_order env0 store0 ''aaaaaaaaaaaaaaaaaaaaaaaa'' (Some ''letmein'') =
       (store0, Inl (HTTPException 401 ''Unauthorized: invalid admin key''))
   \<and> update_order env0 store0 ''aaaaaaaaaaaaaaaaaaaaaaaa'' confirm (Some ''letmein'') =
       (store0, Inl (HTTPException 401 ''Unauthorized: invalid admin key''))
   \<and> delete_product env0 store0 ''0123456789abcdef01234567'' None =
       (store0, Inl (HTTPException 401 ''Unauthorized: invalid admin key''))"
proof -
  have k1: "Some ''letmein'' \<noteq> Some (getenv (ADMIN_KEY env0) ''admin123'')"
    by (simp add: env0_def getenv_def)
  have k2: "None \<noteq> Some (getenv (ADMIN_KEY env0) ''admin123'')"
    by simp
  show ?thesis
    using k1
      admin_gate_unauthorized [OF k1, of store0 coffee "''0123456789abcdef01234567''" only_in_stock
        None "''aaaaaaaaaaaaaaaaaaaaaaaa''" confirm]
      admin_gate_unauthorized [OF k2, of store0 coffee "''0123456789abcdef01234567''" only_in_stock
        None "''aaaaaaaaaaaaaaaaaaaaaaaa''" confirm]
    by blast
qed

subsection \<open>Order creation: rejected payloads\<close>

text \<open>
  C2. An order-creation payload whose payment method is not exactly \<^verbatim>\<open>COD\<close>, or whose
  items are empty, is rejected with 400 Bad Request, and the store after the call is the
  store before it: the rejection precedes every store operation.
\<close>

theorem create_order_rejects:
  assumes "oc_payment_method p \<noteq> ''COD'' \<or> oc_items p = []"
  shows "create_order e s p =
           (s, Inl (HTTPException 400
                 (if oc_payment_method p \<noteq> ''COD'' then ''Only COD is supported''
                  else ''Cart is empty'')))"
  using assms by (auto simp: create_order_def)

theorem create_order_rejects_witness:
  "create_order env0 store0 (cart0\<lparr>oc_payment_method := ''CARD''\<rparr>) =
     (store0, Inl (HTTPException 400 ''Only COD is supported''))
   \<and> create_order env0 store0 (cart0\<lparr>oc_items := []\<rparr>) =
     (store0, Inl (HTTPException 400 ''Cart is empty''))"
proof -
  have a: "oc_payment_method (cart0\<lparr>oc_payment_method := ''CARD''\<rparr>) \<noteq> ''COD''
           \<or> oc_items (cart0\<lparr>oc_payment_method := ''CARD''\<rparr>) = []"
    by simp
  have b: "oc_payment_method (cart0\<lparr>oc_items := []\<rparr>) \<noteq> ''COD'' \<or> oc_items (cart0\<lparr>oc_items := []\<rparr>) = []"
    by simp
  have c: "oc_payment_method (cart0\<lparr>oc_items := []\<rparr>) = ''COD''"
    by (simp add: cart0_def)
  show ?thesis
    using create_order_rejects [OF a, of env0 store0] create_order_rejects [OF b, of env0 store0] c
    by simp
qed

subsection \<open>Product update with no field\<close>

text \<open>
  C10. For an admitted caller, a product update whose body supplies no field returns
  \<^verbatim>\<open>{"updated": false}\<close> and leaves the store as it was, whatever the product
  identifier: one that matches no stored product, or one that is not even well formed,
  gets the same answer, since the identifier is neither parsed nor looked up.
\<close>

theorem update_product_noop:
  assumes "x_admin_key = Some (getenv (ADMIN_KEY e) ''admin123'')"
  shows "patch_api_products e s product_id no_fields x_admin_key =
           (s, Inr (RDict [(''updated'', VBool False)]))"
  using assms
  by (simp add: patch_api_products_def validate_ProductUpdate_def no_fields_def optional_def
        ebind_def ge0_opt_def update_product_def require_admin_def
        ProductUpdate_model_dump_exclude_none_def dump_opt_def)

theorem update_product_noop_witness:
  "patch_api_products env0 store0 ''ffffffffffffffffffffffff'' no_fields (Some ''admin123'') =
     (store0, Inr (RDict [(''updated'', VBool False)]))
   \<and> get_product store0 ''ffffffffffffffffffffffff'' =
     (store0, Inl (HTTPException 404 ''Product not found''))
   \<and> patch_api_products env0 store0 ''no such id'' no_fields (Some ''admin123'') =
     (store0, Inr (RDict [(''updated'', VBool False)]))"
proof -
  have k: "Some ''admin123'' = Some (getenv (ADMIN_KEY env0) ''admin123'')"
    by (simp add: env0_def getenv_def)
  have g: "get_product store0 ''ffffffffffffffffffffffff'' =
     (store0, Inl (HTTPException 404 ''Product not found''))"
    by (simp add: get_product_def to_object_id_def parse_oid_def is_hex_def lower_def to_lower_def
          store0_def find_one_def has_id_def tea_def mug_def falsy_doc_def)
  show ?thesis
    using update_product_noop [OF k, of store0 "''ffffffffffffffffffffffff''"]
      update_product_noop [OF k, of store0 "''no such id''"] g
    by simp
qed

subsection \<open>Lemmas on lookups after serialization and after an update\<close>

lemma find_one_append_fresh:
  "\<forall>x\<in>set pre. \<not> has_id oid x \<Longrightarrow> has_id oid d \<Longrightarrow> find_one (pre @ d # post) oid = Some d"
  by (induction pre) (auto simp: find_one_def)

lemma map_of_iso_field:
  "map_of (iso_field k' d) k = (if k = k' then iso_val (map_of d k) else map_of d k)"
  by (auto simp: iso_field_def iso_val_def AList.update_conv' split: option.splits val.splits)

lemma iso_val_idem: "iso_val (iso_val x) = iso_val x"
  by (auto simp: iso_val_def split: option.splits val.splits)

lemma map_of_iso_fields:
  "map_of (foldl (\<lambda>d k. iso_field k d) d ks) k =
     (if k \<in> set ks then iso_val (map_of d k) else map_of d k)"
  by (induction ks arbitrary: d) (auto simp: map_of_iso_field iso_val_idem)

lemma serialize_doc_Some:
  assumes "map_of d ''_id'' = Some i" "py_str i = Some sid"
  shows "\<exists>out. serialize_doc (Some d) = Inr (RDict out) \<and>
           (\<forall>k. map_of out k =
              (if k = ''id'' then Some (VStr sid)
               else if k = ''_id'' then None
               else if k \<in> {''created_at'', ''updated_at'', ''placed_at''} then iso_val (map_of d k)
               else map_of d k))"
proof -
  from assms(1) have ne: "d \<noteq> []" by auto
  let ?out = "foldl (\<lambda>d k. iso_field k d)
                (AList.update ''id'' (VStr sid) (AList.delete ''_id'' d))
                [''created_at'', ''updated_at'', ''placed_at'']"
  have "serialize_doc (Some d) = Inr (RDict ?out)"
    using assms ne by (simp add: serialize_doc_def)
  moreover have "\<forall>k. map_of ?out k =
              (if k = ''id'' then Some (VStr sid)
               else if k = ''_id'' then None
               else if k \<in> {''created_at'', ''updated_at'', ''placed_at''} then iso_val (map_of d k)
               else map_of d k)"
    unfolding map_of_iso_fields
    by (auto simp: AList.update_conv' AList.delete_conv' iso_val_def)
  ultimately show ?thesis by blast
qed

lemma map_of_set_fields_other:
  "k \<notin> fst ` set updates \<Longrightarrow> map_of (set_fields d updates) k = map_of d k"
  unfolding set_fields_def
  by (induction updates arbitrary: d) (auto simp: AList.update_conv')

lemma map_of_set_fields_in:
  "distinct (map fst updates) \<Longrightarrow> map_of updates k = Some v \<Longrightarrow>
   map_of (set_fields d updates) k = Some (bson v)"
  unfolding set_fields_def
proof (induction updates arbitrary: d)
  case Nil
  then show ?case by simp
next
  case (Cons a updates)
  obtain k' v' where a: "a = (k', v')" by (cases a)
  show ?case
  proof (cases "k = k'")
    case True
    with Cons.prems a have "v' = v" and "k \<notin> fst ` set updates" by auto
    then show ?thesis
      using map_of_set_fields_other [of k updates "AList.update k' (bson v') d"] a True
      by (simp add: set_fields_def AList.update_conv')
  next
    case False
    with Cons a show ?thesis by auto
  qed
qed

lemma update_one_cases:
  "update_one coll oid updates = (coll', n) \<Longrightarrow>
     (n = 0 \<and> coll' = coll \<and> find_one coll oid = None) \<or>
     (n = 1 \<and> (\<exists>pre d post. coll = pre @ d # post \<and> (\<forall>x\<in>set pre. \<not> has_id oid x) \<and>
         has_id oid d \<and> coll' = pre @ set_fields d updates # post))"
proof (induction coll arbitrary: coll' n)
  case Nil
  then show ?case by (simp add: find_one_def)
next
  case (Cons d ds)
  show ?case
  proof (cases "has_id oid d")
    case True
    with Cons.prems have "n = 1" "coll' = set_fields d updates # ds" by auto
    moreover have "d # ds = [] @ d # ds" "\<forall>x\<in>set []. \<not> has_id oid x" by simp_all
    ultimately show ?thesis using True by (metis append_Nil)
  next
    case False
    obtain ds' m where r: "update_one ds oid updates = (ds', m)" by (cases "update_one ds oid updates")
    with False Cons.prems have eq: "coll' = d # ds'" "n = m" by auto
    from Cons.IH [OF r] show ?thesis
    proof
      assume "m = 0 \<and> ds' = ds \<and> find_one ds oid = None"
      with False eq show ?thesis by (simp add: find_one_def)
    next
      assume "m = 1 \<and> (\<exists>pre d post. ds = pre @ d # post \<and> (\<forall>x\<in>set pre. \<not> has_id oid x) \<and>
         has_id oid d \<and> ds' = pre @ set_fields d updates # post)"
      then obtain pre x post where m: "m = 1" and ds: "ds = pre @ x # post"
        and pre: "\<forall>y\<in>set pre. \<not> has_id oid y" and x: "has_id oid x"
        and ds': "ds' = pre @ set_fields x updates # post" by blast
      have "d # ds = (d # pre) @ x # post" using ds by simp
      moreover have "\<forall>y\<in>set (d # pre). \<not> has_id oid y" using pre False by simp
      moreover have "coll' = (d # pre) @ set_fields x updates # post" using eq ds' by simp
      ultimately show ?thesis using m eq x by blast
    qed
  qed
qed

lemma has_id_set_fields:
  "has_id oid d \<Longrightarrow> ''_id'' \<notin> fst ` set updates \<Longrightarrow> has_id oid (set_fields d updates)"
  by (simp add: has_id_def map_of_set_fields_other)

subsection \<open>Serialization of outbound documents\<close>

lemma isoformat_shape:
  "length (isoformat t) = (if dt_microsecond t = 0 then 19 else 26)
   \<and> isoformat t ! 4 = CHR ''-'' \<and> isoformat t ! 7 = CHR ''-'' \<and> isoformat t ! 10 = CHR ''T''
   \<and> isoformat t ! 13 = CHR '':'' \<and> isoformat t ! 16 = CHR '':''"
  by (simp add: isoformat_def pad4_def pad2_def pad6_def)

lemma serialize_all_each:
  "\<forall>d\<in>set ds. \<exists>oid. map_of d ''_id'' = Some (VObjectId oid) \<Longrightarrow>
   \<exists>outs. serialize_all ds = Inr outs \<and> length outs = length ds \<and>
      (\<forall>i<length ds. serialize_doc (Some (ds ! i)) = Inr (outs ! i))"
proof (induction ds)
  case Nil
  then show ?case by simp
next
  case (Cons d ds)
  then obtain outs where o: "serialize_all ds = Inr outs" "length outs = length ds"
    "\<forall>i<length ds. serialize_doc (Some (ds ! i)) = Inr (outs ! i)" by auto
  from Cons.prems obtain oid where "map_of d ''_id'' = Some (VObjectId oid)" by auto
  from serialize_doc_Some [OF this] obtain out where out: "serialize_doc (Some d) = Inr (RDict out)"
    by auto
  have "serialize_all (d # ds) = Inr (RDict out # outs)"
    using o out by (simp add: ebind_def)
  moreover have "\<forall>i<length (d # ds). serialize_doc (Some ((d # ds) ! i)) = Inr ((RDict out # outs) ! i)"
    using o out by (auto simp: nth_Cons split: nat.splits)
  ultimately show ?case using o by auto
qed

lemma isoformat_t_old: "isoformat t_old = ''2023-12-31T23:59:58''"
  by (simp add: isoformat_def t_old_def pad4_def pad2_def digit_def)

subsection \<open>Lemmas on the creation of a document\<close>

lemma map_of_bson: "map_of (map (\<lambda>(k, v). (k, bson v)) d) k = map_option bson (map_of d k)"
  by (induction d) auto

lemma create_document_fresh:
  assumes "\<not> list_ex (has_id (new_oid e)) coll"
  shows "create_document e coll data =
     Inr (coll @ [(''_id'', VObjectId (new_oid e)) #
                   map (\<lambda>(k, v). (k, bson v))
                     (AList.update ''updated_at'' (VDatetime (store_now e))
                        (AList.update ''created_at'' (VDatetime (store_now e)) data))],
          str_oid (new_oid e))"
  using assms by (simp add: create_document_def insert_one_def)

lemma stored_lookup:
  assumes "k \<noteq> ''_id''" "k \<noteq> ''created_at''" "k \<noteq> ''updated_at''"
  shows "map_of ((''_id'', i) # map (\<lambda>(k, v). (k, bson v))
                     (AList.update ''updated_at'' u (AList.update ''created_at'' c data))) k
         = map_option bson (map_of data k)"
  using assms by (simp add: map_of_bson AList.update_conv')

lemma env0_oid_wf: "parse_oid (str_oid (new_oid env0)) = Some (new_oid env0)"
  by (simp add: env0_def parse_oid_def is_hex_def lower_def to_lower_def)

subsection \<open>Lemmas on the fields of a product update\<close>

lemma map_of_dump_opt:
  "map_of (dump_opt k f x) k' = (if k' = k then map_option f x else None)"
  by (simp add: dump_opt_def split: option.split)

lemma keys_dump_opt: "fst ` set (dump_opt k f x) \<subseteq> {k}"
  by (cases x) (simp_all add: dump_opt_def)

lemma distinct_dump_opt_append:
  "k \<notin> fst ` set rest \<Longrightarrow> distinct (map fst rest) \<Longrightarrow> distinct (map fst (dump_opt k f x @ rest))"
  by (cases x) (auto simp: dump_opt_def)

lemma keys_dump_opt_append:
  "fst ` set rest \<subseteq> K \<Longrightarrow> fst ` set (dump_opt k f x @ rest) \<subseteq> insert k K"
  using keys_dump_opt [of k f x] by auto

lemma keys_dump_opt_last:
  "fst ` set (dump_opt k f x) \<subseteq> insert k {}"
  using keys_dump_opt [of k f x] by auto

lemma fields_ProductUpdate_dump:
  "fst ` set (ProductUpdate_model_dump_exclude_none p) \<subseteq>
     {''title'', ''description'', ''price'', ''currency'', ''category'', ''image_url'', ''in_stock''}"
  unfolding ProductUpdate_model_dump_exclude_none_def
  by (intro keys_dump_opt_append keys_dump_opt_last)

lemma distinct_ProductUpdate_dump:
  "distinct (map fst (ProductUpdate_model_dump_exclude_none p))"
proof -
  let ?d7 = "dump_opt ''in_stock'' VBool (pu_in_stock p)"
  let ?d6 = "dump_opt ''image_url'' VStr (pu_image_url p) @ ?d7"
  let ?d5 = "dump_opt ''category'' VStr (pu_category p) @ ?d6"
  let ?d4 = "dump_opt ''currency'' VStr (pu_currency p) @ ?d5"
  let ?d3 = "dump_opt ''price'' VFloat (pu_price p) @ ?d4"
  let ?d2 = "dump_opt ''description'' VStr (pu_description p) @ ?d3"
  have k7: "fst ` set ?d7 \<subseteq> {''in_stock''}" by (rule keys_dump_opt)
  have k6: "fst ` set ?d6 \<subseteq> {''image_url'', ''in_stock''}"
    by (rule keys_dump_opt_append [OF k7])
  have k5: "fst ` set ?d5 \<subseteq> {''category'', ''image_url'', ''in_stock''}"
    by (rule keys_dump_opt_append [OF k6])
  have k4: "fst ` set ?d4 \<subseteq> {''currency'', ''category'', ''image_url'', ''in_stock''}"
    by (rule keys_dump_opt_append [OF k5])
  have k3: "fst ` set ?d3 \<subseteq> {''price'', ''currency'', ''category'', ''image_url'', ''in_stock''}"
    by (rule keys_dump_opt_append [OF k4])
  have k2: "fst ` set ?d2 \<subseteq> {''description'', ''price'', ''currency'', ''category'', ''image_url'', ''in_stock''}"
    by (rule keys_dump_opt_append [OF k3])
  have d7: "distinct (map fst ?d7)" by (cases "pu_in_stock p") (simp_all add: dump_opt_def)
  have n6: "''image_url'' \<notin> fst ` set ?d7" using k7 by (rule contra_subsetD) simp
  have d6: "distinct (map fst ?d6)" by (rule distinct_dump_opt_append [OF n6 d7])
  have n5: "''category'' \<notin> fst ` set ?d6" using k6 by (rule contra_subsetD) simp
  have d5: "distinct (map fst ?d5)" by (rule distinct_dump_opt_append [OF n5 d6])
  have n4: "''currency'' \<notin> fst ` set ?d5" using k5 by (rule contra_subsetD) simp
  have d4: "distinct (map fst ?d4)" by (rule distinct_dump_opt_append [OF n4 d5])
  have n3: "''price'' \<notin> fst ` set ?d4" using k4 by (rule contra_subsetD) simp
  have d3: "distinct (map fst ?d3)" by (rule distinct_dump_opt_append [OF n3 d4])
  have n2: "''description'' \<notin> fst ` set ?d3" using k3 by (rule contra_subsetD) simp
  have d2: "distinct (map fst ?d2)" by (rule distinct_dump_opt_append [OF n2 d3])
  have n1: "''title'' \<notin> fst ` set ?d2" using k2 by (rule contra_subsetD) simp
  show ?thesis
    unfolding ProductUpdate_model_dump_exclude_none_def
    by (rule distinct_dump_opt_append [OF n1 d2])
qed

lemma map_of_ProductUpdate_dump:
  "map_of (ProductUpdate_model_dump_exclude_none p) ''title'' = map_option VStr (pu_title p)"
  "map_of (ProductUpdate_model_dump_exclude_none p) ''description'' = map_option VStr (pu_description p)"
  "map_of (ProductUpdate_model_dump_exclude_none p) ''price'' = map_option VFloat (pu_price p)"
  "map_of (ProductUpdate_model_dump_exclude_none p) ''currency'' = map_option VStr (pu_currency p)"
  "map_of (ProductUpdate_model_dump_exclude_none p) ''category'' = map_option VStr (pu_category p)"
  "map_of (ProductUpdate_model_dump_exclude_none p) ''image_url'' = map_option VStr (pu_image_url p)"
  "map_of (ProductUpdate_model_dump_exclude_none p) ''in_stock'' = map_option VBool (pu_in_stock p)"
  by (simp_all add: ProductUpdate_model_dump_exclude_none_def map_of_dump_opt map_add_def
        split: option.split)

subsection \<open>Partial update of a product\<close>

lemma find_one_SomeD:
  "find_one coll oid = Some d \<Longrightarrow> has_id oid d"
  by (auto simp: find_one_def find_Some_iff)

lemma update_one_found:
  assumes "find_one coll oid = Some d"
  shows "\<exists>pre post. coll = pre @ d # post \<and> (\<forall>x\<in>set pre. \<not> has_id oid x) \<and>
           update_one coll oid updates = (pre @ set_fields d updates # post, 1)"
proof -
  obtain coll' n where r: "update_one coll oid updates = (coll', n)"
    by (cases "update_one coll oid updates")
  from update_one_cases [OF r] assms
  obtain pre x post where n: "n = 1" and c: "coll = pre @ x # post"
    and pre: "\<forall>y\<in>set pre. \<not> has_id oid y" and x: "has_id oid x"
    and c': "coll' = pre @ set_fields x updates # post"
    by auto
  have "find_one coll oid = Some x" unfolding c by (rule find_one_append_fresh [OF pre x])
  with assms have "x = d" by simp
  with r n c pre c' show ?thesis by auto
qed

lemma set_fields_lookup:
  assumes "distinct (map fst updates)"
  shows "map_of (set_fields d updates) k =
           (case map_of updates k of None \<Rightarrow> map_of d k | Some v \<Rightarrow> Some (bson v))"
proof (cases "map_of updates k")
  case None
  then have "k \<notin> fst ` set updates" by (simp add: map_of_eq_None_iff)
  then show ?thesis using None by (simp add: map_of_set_fields_other)
next
  case (Some v)
  then show ?thesis using map_of_set_fields_in [OF assms Some] by simp
qed

lemma map_of_ProductUpdate_dump_other:
  assumes "k \<notin> {''title'', ''description'', ''price'', ''currency'', ''category'', ''image_url'', ''in_stock''}"
  shows "map_of (ProductUpdate_model_dump_exclude_none p) k = None"
proof -
  have "k \<notin> fst ` set (ProductUpdate_model_dump_exclude_none p)"
    using fields_ProductUpdate_dump [of p] assms by (rule contra_subsetD)
  then show ?thesis by (simp add: map_of_eq_None_iff)
qed

text \<open>
  C4. A product update by an admitted caller that names an existing product and supplies
  at least one field changes, in that product's stored document, exactly the supplied
  fields and \<^verbatim>\<open>updated_at\<close>: each of the seven fields of the request that is absent
  keeps its stored value, every other field of the document is untouched, the other
  documents of the collection stay in place, and the serialized updated document is
  returned. In particular an update of \<^verbatim>\<open>in_stock\<close> alone leaves title, price and
  category as they were.
\<close>

theorem update_product_frame:
  assumes key: "x_admin_key = Some (getenv (ADMIN_KEY e) ''admin123'')"
    and oid: "to_object_id product_id = Inr oid"
    and ex: "find_one (product_coll s) oid = Some d"
    and ne: "ProductUpdate_model_dump_exclude_none payload \<noteq> []"
  shows "\<exists>pre post d' out.
       product_coll s = pre @ d # post
     \<and> update_product e s product_id payload x_admin_key =
         (s\<lparr>product_coll := pre @ d' # post\<rparr>, Inr (RDict out))
     \<and> find_one (pre @ d' # post) oid = Some d'
     \<and> serialize_doc (Some d') = Inr (RDict out)
     \<and> map_of d' ''title'' =
         (case pu_title payload of None \<Rightarrow> map_of d ''title'' | Some v \<Rightarrow> Some (VStr v))
     \<and> map_of d' ''description'' =
         (case pu_description payload of None \<Rightarrow> map_of d ''description'' | Some v \<Rightarrow> Some (VStr v))
     \<and> map_of d' ''price'' =
         (case pu_price payload of None \<Rightarrow> map_of d ''price'' | Some v \<Rightarrow> Some (VFloat v))
     \<and> map_of d' ''currency'' =
         (case pu_currency payload of None \<Rightarrow> map_of d ''currency'' | Some v \<Rightarrow> Some (VStr v))
     \<and> map_of d' ''category'' =
         (case pu_category payload of None \<Rightarrow> map_of d ''category'' | Some v \<Rightarrow> Some (VStr v))
     \<and> map_of d' ''image_url'' =
         (case pu_image_url payload of None \<Rightarrow> map_of d ''image_url'' | Some v \<Rightarrow> Some (VStr v))
     \<and> map_of d' ''in_stock'' =
         (case pu_in_stock payload of None \<Rightarrow> map_of d ''in_stock'' | Some v \<Rightarrow> Some (VBool v))
     \<and> map_of d' ''updated_at'' = Some (bson (VDatetime (utcnow e)))
     \<and> (\<forall>k. k \<notin> {''title'', ''description'', ''price'', ''currency'', ''category'',
                    ''image_url'', ''in_stock'', ''updated_at''} \<longrightarrow> map_of d' k = map_of d k)"
proof -
  define dump where "dump = ProductUpdate_model_dump_exclude_none payload"
  define updates where "updates = AList.update ''updated_at'' (VDatetime (utcnow e)) dump"
  define d' where "d' = set_fields d updates"
  have dist: "distinct (map fst updates)"
    unfolding updates_def dump_def by (rule distinct_update [OF distinct_ProductUpdate_dump])
  have mu: "map_of updates k = ((map_of dump)(''updated_at'' \<mapsto> VDatetime (utcnow e))) k" for k
    by (simp add: updates_def update_conv')
  note look = set_fields_lookup [OF dist, of d, folded d'_def]
  have f1: "map_of d' ''title'' =
         (case pu_title payload of None \<Rightarrow> map_of d ''title'' | Some v \<Rightarrow> Some (VStr v))"
    by (simp add: look mu dump_def map_of_ProductUpdate_dump split: option.split)
  have f2: "map_of d' ''description'' =
         (case pu_description payload of None \<Rightarrow> map_of d ''description'' | Some v \<Rightarrow> Some (VStr v))"
    by (simp add: look mu dump_def map_of_ProductUpdate_dump split: option.split)
  have f3: "map_of d' ''price'' =
         (case pu_price payload of None \<Rightarrow> map_of d ''price'' | Some v \<Rightarrow> Some (VFloat v))"
    by (simp add: look mu dump_def map_of_ProductUpdate_dump split: option.split)
  have f4: "map_of d' ''currency'' =
         (case pu_currency payload of None \<Rightarrow> map_of d ''currency'' | Some v \<Rightarrow> Some (VStr v))"
    by (simp add: look mu dump_def map_of_ProductUpdate_dump split: option.split)
  have f5: "map_of d' ''category'' =
         (case pu_category payload of None \<Rightarrow> map_of d ''category'' | Some v \<Rightarrow> Some (VStr v))"
    by (simp add: look mu dump_def map_of_ProductUpdate_dump split: option.split)
  have f6: "map_of d' ''image_url'' =
         (case pu_image_url payload of None \<Rightarrow> map_of d ''image_url'' | Some v \<Rightarrow> Some (VStr v))"
    by (simp add: look mu dump_def map_of_ProductUpdate_dump split: option.split)
  have f7: "map_of d' ''in_stock'' =
         (case pu_in_stock payload of None \<Rightarrow> map_of d ''in_stock'' | Some v \<Rightarrow> Some (VBool v))"
    by (simp add: look mu dump_def map_of_ProductUpdate_dump split: option.split)
  have f8: "map_of d' ''updated_at'' = Some (bson (VDatetime (utcnow e)))"
    by (simp add: look mu)
  have f9: "\<forall>k. k \<notin> {''title'', ''description'', ''price'', ''currency'', ''category'',
                    ''image_url'', ''in_stock'', ''updated_at''} \<longrightarrow> map_of d' k = map_of d k"
  proof (intro allI impI)
    fix k :: string
    assume k: "k \<notin> {''title'', ''description'', ''price'', ''currency'', ''category'',
                    ''image_url'', ''in_stock'', ''updated_at''}"
    then have "k \<notin> {''title'', ''description'', ''price'', ''currency'', ''category'',
                    ''image_url'', ''in_stock''}" and "k \<noteq> ''updated_at''" by simp_all
    then have "map_of updates k = None"
      by (simp add: mu dump_def map_of_ProductUpdate_dump_other)
    then show "map_of d' k = map_of d k" by (simp add: look)
  qed
  from update_one_found [OF ex, of updates] obtain pre post where
    c: "product_coll s = pre @ d # post" and pre: "\<forall>x\<in>set pre. \<not> has_id oid x" and
    u: "update_one (product_coll s) oid updates = (pre @ d' # post, 1)"
    unfolding d'_def by blast
  have "map_of d' ''_id'' = map_of d ''_id''" using f9 by simp
  moreover have hd: "has_id oid d" by (rule find_one_SomeD [OF ex])
  ultimately have hd': "has_id oid d'" by (simp add: has_id_def)
  have fo: "find_one (pre @ d' # post) oid = Some d'"
    by (rule find_one_append_fresh [OF pre hd'])
  have i: "map_of d' ''_id'' = Some (VObjectId oid)" using hd' by (simp add: has_id_def)
  have "py_str (VObjectId oid) = Some (str_oid oid)" by simp
  from serialize_doc_Some [OF i this] obtain out where
    ser: "serialize_doc (Some d') = Inr (RDict out)" by auto
  have up: "update_product e s product_id payload x_admin_key =
         (s\<lparr>product_coll := pre @ d' # post\<rparr>, Inr (RDict out))"
    using ne oid u fo ser
    by (simp add: update_product_def require_admin_ok [OF key] Let_def updates_def dump_def)
  show ?thesis
    apply (rule exI [of _ pre])
    apply (rule exI [of _ post])
    apply (rule exI [of _ d'])
    apply (rule exI [of _ out])
    apply (intro conjI c up fo ser f1 f2 f3 f4 f5 f6 f7 f8 f9)
    done
qed

lemma env0_key: "Some ''admin123'' = Some (getenv (ADMIN_KEY env0) ''admin123'')"
  by (simp add: env0_def getenv_def)

lemma tea_oid: "to_object_id ''0123456789abcdef01234567'' = Inr (ObjectId ''0123456789abcdef01234567'')"
  by (simp add: to_object_id_def parse_oid_def is_hex_def lower_def to_lower_def)

lemma find_tea: "find_one (product_coll store0) (ObjectId ''0123456789abcdef01234567'') = Some tea"
  by (simp add: store0_def find_one_def has_id_def tea_def)

theorem update_product_frame_witness:
  "\<exists>pre post d' out.
       product_coll store0 = pre @ tea # post
     \<and> update_product env0 store0 ''0123456789abcdef01234567'' only_in_stock (Some ''admin123'') =
         (store0\<lparr>product_coll := pre @ d' # post\<rparr>, Inr (RDict out))
     \<and> map_of d' ''in_stock'' = Some (VBool False)
     \<and> map_of d' ''title'' = Some (VStr ''Tea'')
     \<and> map_of d' ''price'' = Some (VFloat 1000)
     \<and> map_of d' ''category'' = Some (VStr ''drinks'')
     \<and> map_of d' ''created_at'' = Some (VDatetime t_old)"
proof -
  have ne: "ProductUpdate_model_dump_exclude_none only_in_stock \<noteq> []"
    by (simp add: ProductUpdate_model_dump_exclude_none_def only_in_stock_def dump_opt_def)
  from update_product_frame [OF env0_key tea_oid find_tea ne]
  obtain pre post d' out where
    o: "product_coll store0 = pre @ tea # post
     \<and> update_product env0 store0 ''0123456789abcdef01234567'' only_in_stock (Some ''admin123'') =
         (store0\<lparr>product_coll := pre @ d' # post\<rparr>, Inr (RDict out))
     \<and> find_one (pre @ d' # post) (ObjectId ''0123456789abcdef01234567'') = Some d'
     \<and> serialize_doc (Some d') = Inr (RDict out)
     \<and> map_of d' ''title'' =
         (case pu_title only_in_stock of None \<Rightarrow> map_of tea ''title'' | Some v \<Rightarrow> Some (VStr v))
     \<and> map_of d' ''description'' =
         (case pu_description only_in_stock of None \<Rightarrow> map_of tea ''description'' | Some v \<Rightarrow> Some (VStr v))
     \<and> map_of d' ''price'' =
         (case pu_price only_in_stock of None \<Rightarrow> map_of tea ''price'' | Some v \<Rightarrow> Some (VFloat v))
     \<and> map_of d' ''currency'' =
         (case pu_currency only_in_stock of None \<Rightarrow> map_of tea ''currency'' | Some v \<Rightarrow> Some (VStr v))
     \<and> map_of d' ''category'' =
         (case pu_category only_in_stock of None \<Rightarrow> map_of tea ''category'' | Some v \<Rightarrow> Some (VStr v))
     \<and> map_of d' ''image_url'' =
         (case pu_image_url only_in_stock of None \<Rightarrow> map_of tea ''image_url'' | Some v \<Rightarrow> Some (VStr v))
     \<and> map_of d' ''in_stock'' =
         (case pu_in_stock only_in_stock of None \<Rightarrow> map_of tea ''in_stock'' | Some v \<Rightarrow> Some (VBool v))
     \<and> map_of d' ''updated_at'' = Some (bson (VDatetime (utcnow env0)))
     \<and> (\<forall>k. k \<notin> {''title'', ''description'', ''price'', ''currency'', ''category'',
                    ''image_url'', ''in_stock'', ''updated_at''} \<longrightarrow> map_of d' k = map_of tea k)"
    by (elim exE)
  note c = o [THEN conjunct1]
  note up = o [THEN conjunct2, THEN conjunct1]
  note rest = o [THEN conjunct2, THEN conjunct2, THEN conjunct2, THEN conjunct2]
  note f1 = rest [THEN conjunct1]
  note f3 = rest [THEN conjunct2, THEN conjunct2, THEN conjunct1]
  note f5 = rest [THEN conjunct2, THEN conjunct2, THEN conjunct2, THEN conjunct2, THEN conjunct1]
  note f7 = rest [THEN conjunct2, THEN conjunct2, THEN conjunct2, THEN conjunct2, THEN conjunct2,
                  THEN conjunct2, THEN conjunct1]
  note f9 = rest [THEN conjunct2, THEN conjunct2, THEN conjunct2, THEN conjunct2, THEN conjunct2,
                  THEN conjunct2, THEN conjunct2, THEN conjunct2]
  have w1: "map_of d' ''in_stock'' = Some (VBool False)"
    using f7 by (simp add: only_in_stock_def)
  have w2: "map_of d' ''title'' = Some (VStr ''Tea'')"
    using f1 by (simp add: only_in_stock_def tea_def)
  have w3: "map_of d' ''price'' = Some (VFloat 1000)"
    using f3 by (simp add: only_in_stock_def tea_def)
  have w4: "map_of d' ''category'' = Some (VStr ''drinks'')"
    using f5 by (simp add: only_in_stock_def tea_def)
  have "map_of d' ''created_at'' = map_of tea ''created_at''"
    by (rule f9 [THEN spec, THEN mp]) simp
  then have w5: "map_of d' ''created_at'' = Some (VDatetime t_old)"
    by (simp add: tea_def)
  show ?thesis
    apply (rule exI [of _ pre])
    apply (rule exI [of _ post])
    apply (rule exI [of _ d'])
    apply (rule exI [of _ out])
    apply (intro conjI c up w1 w2 w3 w4 w5)
    done
qed

subsection \<open>Lemmas on null fields and on what an update can store\<close>

lemma optional_null_as_absent: "optional (null_as_absent x) = optional x"
  by (cases x) (simp_all add: optional_def null_as_absent_def)

lemma required_null_as_absent: "required (null_as_absent x) = required x"
  by (cases x) (simp_all add: required_def null_as_absent_def)

lemma validate_ProductUpdate_nulls:
  "validate_ProductUpdate (ProductUpdate_nulls_absent b) = validate_ProductUpdate b"
  by (simp add: validate_ProductUpdate_def ProductUpdate_nulls_absent_def optional_null_as_absent)

lemma validate_OrderStatusUpdate_nulls:
  "validate_OrderStatusUpdate (OrderStatusUpdate_nulls_absent b) = validate_OrderStatusUpdate b"
  by (simp add: validate_OrderStatusUpdate_def OrderStatusUpdate_nulls_absent_def
        optional_null_as_absent required_null_as_absent)

lemma update_one_rel:
  "list_all2 (\<lambda>d d'. d' = d \<or> d' = set_fields d updates) coll (fst (update_one coll oid updates))"
  by (induction coll) (auto simp: list.rel_refl split: prod.splits)

lemma update_product_coll:
  "list_all2 (\<lambda>d d'. d' = d \<or> d' = set_fields d
        (AList.update ''updated_at'' (VDatetime (utcnow e)) (ProductUpdate_model_dump_exclude_none payload)))
     (product_coll s) (product_coll (fst (update_product e s product_id payload x_admin_key)))"
proof -
  let ?u = "AList.update ''updated_at'' (VDatetime (utcnow e)) (ProductUpdate_model_dump_exclude_none payload)"
  have r: "list_all2 (\<lambda>d d'. d' = d \<or> d' = set_fields d ?u) (product_coll s) (product_coll s)"
    by (simp add: list.rel_refl)
  have u: "list_all2 (\<lambda>d d'. d' = d \<or> d' = set_fields d ?u) (product_coll s) c'"
    if "update_one (product_coll s) oid ?u = (c', n)" for oid c' n
    using update_one_rel [of ?u "product_coll s" oid] that by simp
  show ?thesis
    using r u
    by (auto simp: update_product_def Let_def split: sum.splits prod.splits)
qed

lemma update_order_coll:
  "list_all2 (\<lambda>d d'. d' = d \<or> d' = set_fields d
        (AList.update ''updated_at'' (VDatetime (utcnow e)) (OrderStatusUpdate_model_dump_exclude_none payload)))
     (order_coll s) (order_coll (fst (update_order e s order_id payload x_admin_key)))"
proof -
  let ?u = "AList.update ''updated_at'' (VDatetime (utcnow e)) (OrderStatusUpdate_model_dump_exclude_none payload)"
  have r: "list_all2 (\<lambda>d d'. d' = d \<or> d' = set_fields d ?u) (order_coll s) (order_coll s)"
    by (simp add: list.rel_refl)
  have u: "list_all2 (\<lambda>d d'. d' = d \<or> d' = set_fields d ?u) (order_coll s) c'"
    if "update_one (order_coll s) oid ?u = (c', n)" for oid c' n
    using update_one_rel [of ?u "order_coll s" oid] that by simp
  show ?thesis
    using r u
    by (auto simp: update_order_def Let_def split: sum.splits prod.splits)
qed

lemma bson_VNone: "bson v = VNone \<longleftrightarrow> v = VNone"
  by (cases v) simp_all

lemma set_fields_not_cleared:
  "\<forall>k. (k, VNone) \<notin> set updates \<Longrightarrow> map_of (set_fields d updates) k = Some VNone \<Longrightarrow>
   map_of d k = Some VNone"
  unfolding set_fields_def
proof (induction updates arbitrary: d)
  case Nil
  then show ?case by simp
next
  case (Cons a updates)
  obtain k' v' where a: "a = (k', v')" by (cases a)
  from Cons.prems(1) a have v': "v' \<noteq> VNone" and rest: "\<forall>k. (k, VNone) \<notin> set updates" by auto
  from Cons.prems(2) a have "map_of (foldl (\<lambda>d (k, v). AList.update k (bson v) d)
          (AList.update k' (bson v') d) updates) k = Some VNone" by simp
  from Cons.IH [OF rest this] have "map_of (AList.update k' (bson v') d) k = Some VNone" .
  then show ?case using v' by (auto simp: update_conv' bson_VNone split: if_splits)
qed

lemma set_update_subset: "set (AList.update k v al) \<subseteq> insert (k, v) (set al)"
  by (induction al) auto

lemma ProductUpdate_dump_no_None: "(k, VNone) \<notin> set (ProductUpdate_model_dump_exclude_none p)"
  by (auto simp: ProductUpdate_model_dump_exclude_none_def dump_opt_def split: option.splits)

lemma OrderStatusUpdate_dump_no_None: "(k, VNone) \<notin> set (OrderStatusUpdate_model_dump_exclude_none p)"
  by (auto simp: OrderStatusUpdate_model_dump_exclude_none_def dump_opt_def split: option.splits)

lemma validate_ProductUpdate_Inr:
  assumes "validate_ProductUpdate b = Inr p"
  shows "optional (bpu_description b) = Inr (pu_description p)"
    and "optional (bpu_image_url b) = Inr (pu_image_url p)"
  using assms
  by (auto simp: validate_ProductUpdate_def ebind_def split: sum.splits)

lemma validate_OrderStatusUpdate_Inr:
  assumes "validate_OrderStatusUpdate b = Inr p"
  shows "optional (bosu_tracking_note b) = Inr (osu_tracking_note p)"
    and "required (bosu_status b) = Inr (osu_status p)"
  using assms
  by (auto simp: validate_OrderStatusUpdate_def ebind_def split: sum.splits)

lemma updates_no_None:
  assumes "\<forall>k. (k, VNone) \<notin> set dump"
  shows "\<forall>k. (k, VNone) \<notin> set (AList.update ''updated_at'' (VDatetime t) dump)"
  using assms set_update_subset [of "''updated_at''" "VDatetime t" dump] by auto

lemma none_cleared_refl: "none_cleared c c"
  by (simp add: none_cleared_def list.rel_refl)

lemma field_kept_refl: "field_kept k c c"
  by (simp add: field_kept_def list.rel_refl)

lemma none_cleared_update_product:
  "none_cleared (product_coll s) (product_coll (fst (update_product e s product_id payload x_admin_key)))"
  unfolding none_cleared_def
proof (rule list_all2_mono [OF update_product_coll])
  fix d d'
  let ?u = "AList.update ''updated_at'' (VDatetime (utcnow e)) (ProductUpdate_model_dump_exclude_none payload)"
  assume "d' = d \<or> d' = set_fields d ?u"
  moreover have "\<forall>k. (k, VNone) \<notin> set ?u"
    by (rule updates_no_None) (simp add: ProductUpdate_dump_no_None)
  ultimately show "\<forall>k. map_of d' k = Some VNone \<longrightarrow> map_of d k = Some VNone"
    using set_fields_not_cleared [of ?u d] by auto
qed

lemma none_cleared_update_order:
  "none_cleared (order_coll s) (order_coll (fst (update_order e s order_id payload x_admin_key)))"
  unfolding none_cleared_def
proof (rule list_all2_mono [OF update_order_coll])
  fix d d'
  let ?u = "AList.update ''updated_at'' (VDatetime (utcnow e)) (OrderStatusUpdate_model_dump_exclude_none payload)"
  assume "d' = d \<or> d' = set_fields d ?u"
  moreover have "\<forall>k. (k, VNone) \<notin> set ?u"
    by (rule updates_no_None) (simp add: OrderStatusUpdate_dump_no_None)
  ultimately show "\<forall>k. map_of d' k = Some VNone \<longrightarrow> map_of d k = Some VNone"
    using set_fields_not_cleared [of ?u d] by auto
qed

lemma field_kept_update_product:
  assumes "map_of (ProductUpdate_model_dump_exclude_none payload) k = None" "k \<noteq> ''updated_at''"
  shows "field_kept k (product_coll s) (product_coll (fst (update_product e s product_id payload x_admin_key)))"
  unfolding field_kept_def
proof (rule list_all2_mono [OF update_product_coll])
  fix d d'
  let ?u = "AList.update ''updated_at'' (VDatetime (utcnow e)) (ProductUpdate_model_dump_exclude_none payload)"
  assume "d' = d \<or> d' = set_fields d ?u"
  moreover have "k \<notin> fst ` set ?u"
    using assms by (simp add: dom_update map_of_eq_None_iff)
  ultimately show "map_of d' k = map_of d k"
    by (auto simp: map_of_set_fields_other)
qed

lemma field_kept_update_order:
  assumes "map_of (OrderStatusUpdate_model_dump_exclude_none payload) k = None" "k \<noteq> ''updated_at''"
  shows "field_kept k (order_coll s) (order_coll (fst (update_order e s order_id payload x_admin_key)))"
  unfolding field_kept_def
proof (rule list_all2_mono [OF update_order_coll])
  fix d d'
  let ?u = "AList.update ''updated_at'' (VDatetime (utcnow e)) (OrderStatusUpdate_model_dump_exclude_none payload)"
  assume "d' = d \<or> d' = set_fields d ?u"
  moreover have "k \<notin> fst ` set ?u"
    using assms by (simp add: dom_update map_of_eq_None_iff)
  ultimately show "map_of d' k = map_of d k"
    by (auto simp: map_of_set_fields_other)
qed

subsection \<open>A null field in a partial update\<close>

text \<open>
  C9. In the product update and in the order status update, a body with a field set to
  \<^verbatim>\<open>null\<close> is answered exactly as the body with that field left out, with the same
  store afterwards. No update stores \<^verbatim>\<open>null\<close> in a field that did not hold it, and when
  \<^verbatim>\<open>description\<close>, \<^verbatim>\<open>image_url\<close> or \<^verbatim>\<open>tracking_note\<close> is sent as \<^verbatim>\<open>null\<close> that field
  keeps its stored value in every document: an optional field cannot be cleared.
\<close>

theorem null_is_absent:
  "patch_api_products e s product_id b x_admin_key =
     patch_api_products e s product_id (ProductUpdate_nulls_absent b) x_admin_key
   \<and> patch_api_orders e s order_id ob x_admin_key =
     patch_api_orders e s order_id (OrderStatusUpdate_nulls_absent ob) x_admin_key
   \<and> none_cleared (product_coll s)
       (product_coll (fst (patch_api_products e s product_id b x_admin_key)))
   \<and> none_cleared (order_coll s)
       (order_coll (fst (patch_api_orders e s order_id ob x_admin_key)))
   \<and> (bpu_description b = Null \<longrightarrow>
        field_kept ''description'' (product_coll s)
          (product_coll (fst (patch_api_products e s product_id b x_admin_key))))
   \<and> (bpu_image_url b = Null \<longrightarrow>
        field_kept ''image_url'' (product_coll s)
          (product_coll (fst (patch_api_products e s product_id b x_admin_key))))
   \<and> (bosu_tracking_note ob = Null \<longrightarrow>
        field_kept ''tracking_note'' (order_coll s)
          (order_coll (fst (patch_api_orders e s order_id ob x_admin_key))))"
proof -
  have 1: "patch_api_products e s product_id b x_admin_key =
     patch_api_products e s product_id (ProductUpdate_nulls_absent b) x_admin_key"
    by (simp add: patch_api_products_def validate_ProductUpdate_nulls)
  have 2: "patch_api_orders e s order_id ob x_admin_key =
     patch_api_orders e s order_id (OrderStatusUpdate_nulls_absent ob) x_admin_key"
    by (simp add: patch_api_orders_def validate_OrderStatusUpdate_nulls)
  have 3: "none_cleared (product_coll s)
       (product_coll (fst (patch_api_products e s product_id b x_admin_key)))"
    by (cases "validate_ProductUpdate b")
       (simp_all add: patch_api_products_def none_cleared_refl none_cleared_update_product)
  have 4: "none_cleared (order_coll s)
       (order_coll (fst (patch_api_orders e s order_id ob x_admin_key)))"
    by (cases "validate_OrderStatusUpdate ob")
       (simp_all add: patch_api_orders_def none_cleared_refl none_cleared_update_order)
  have 5: "field_kept ''description'' (product_coll s)
          (product_coll (fst (patch_api_products e s product_id b x_admin_key)))"
    if n: "bpu_description b = Null"
  proof (cases "validate_ProductUpdate b")
    case (Inl err)
    then show ?thesis by (simp add: patch_api_products_def field_kept_refl)
  next
    case (Inr p)
    from validate_ProductUpdate_Inr(1) [OF Inr] n have "pu_description p = None"
      by (simp add: optional_def)
    then have "map_of (ProductUpdate_model_dump_exclude_none p) ''description'' = None"
      by (simp add: map_of_ProductUpdate_dump)
    then show ?thesis
      using Inr by (simp add: patch_api_products_def field_kept_update_product)
  qed
  have 6: "field_kept ''image_url'' (product_coll s)
          (product_coll (fst (patch_api_products e s product_id b x_admin_key)))"
    if n: "bpu_image_url b = Null"
  proof (cases "validate_ProductUpdate b")
    case (Inl err)
    then show ?thesis by (simp add: patch_api_products_def field_kept_refl)
  next
    case (Inr p)
    from validate_ProductUpdate_Inr(2) [OF Inr] n have "pu_image_url p = None"
      by (simp add: optional_def)
    then have "map_of (ProductUpdate_model_dump_exclude_none p) ''image_url'' = None"
      by (simp add: map_of_ProductUpdate_dump)
    then show ?thesis
      using Inr by (simp add: patch_api_products_def field_kept_update_product)
  qed
  have 7: "field_kept ''tracking_note'' (order_coll s)
          (order_coll (fst (patch_api_orders e s order_id ob x_admin_key)))"
    if n: "bosu_tracking_note ob = Null"
  proof (cases "validate_OrderStatusUpdate ob")
    case (Inl err)
    then show ?thesis by (simp add: patch_api_orders_def field_kept_refl)
  next
    case (Inr p)
    from validate_OrderStatusUpdate_Inr(1) [OF Inr] n have "osu_tracking_note p = None"
      by (simp add: optional_def)
    then have "map_of (OrderStatusUpdate_model_dump_exclude_none p) ''tracking_note'' = None"
      by (simp add: OrderStatusUpdate_model_dump_exclude_none_def dump_opt_def)
    then show ?thesis
      using Inr by (simp add: patch_api_orders_def field_kept_update_order)
  qed
  from 1 2 3 4 5 6 7 show ?thesis by (intro conjI impI)
qed

lemma mug_oid: "to_object_id ''0123456789abcdef01234568'' = Inr (ObjectId ''0123456789abcdef01234568'')"
  by (simp add: to_object_id_def parse_oid_def is_hex_def lower_def to_lower_def)

lemma patch_mug_in_stock:
  "map_of (product_coll (fst (patch_api_products env0 store0 ''0123456789abcdef01234568''
      null_description (Some ''admin123''))) ! 1) ''in_stock'' = Some (VBool True)"
  by (simp add: patch_api_products_def validate_ProductUpdate_def null_description_def optional_def
        ebind_def ge0_opt_def update_product_def require_admin_def env0_def getenv_def
        ProductUpdate_model_dump_exclude_none_def dump_opt_def mug_oid store0_def
        has_id_def tea_def mug_def set_fields_def Let_def)

theorem null_is_absent_witness:
  "patch_api_products env0 store0 ''0123456789abcdef01234568'' null_description (Some ''admin123'') =
     patch_api_products env0 store0 ''0123456789abcdef01234568''
       (ProductUpdate_nulls_absent null_description) (Some ''admin123'')
   \<and> patch_api_orders env0 store0 ''aaaaaaaaaaaaaaaaaaaaaaaa'' null_note (Some ''admin123'') =
     patch_api_orders env0 store0 ''aaaaaaaaaaaaaaaaaaaaaaaa''
       (OrderStatusUpdate_nulls_absent null_note) (Some ''admin123'')
   \<and> bpu_description null_description = Null
   \<and> field_kept ''description'' (product_coll store0)
        (product_coll (fst (patch_api_products env0 store0 ''0123456789abcdef01234568''
           null_description (Some ''admin123''))))
   \<and> bosu_tracking_note null_note = Null
   \<and> field_kept ''tracking_note'' (order_coll store0)
        (order_coll (fst (patch_api_orders env0 store0 ''aaaaaaaaaaaaaaaaaaaaaaaa''
           null_note (Some ''admin123''))))
   \<and> none_cleared (product_coll store0)
        (product_coll (fst (patch_api_products env0 store0 ''0123456789abcdef01234568''
           null_description (Some ''admin123''))))
   \<and> map_of (product_coll (fst (patch_api_products env0 store0 ''0123456789abcdef01234568''
        null_description (Some ''admin123''))) ! 1) ''in_stock'' = Some (VBool True)"
proof -
  have a: "bpu_description null_description = Null" by (simp add: null_description_def)
  have b: "bosu_tracking_note null_note = Null" by (simp add: null_note_def)
  note t = null_is_absent [of env0 store0 "''0123456789abcdef01234568''" null_description
      "Some ''admin123''" "''aaaaaaaaaaaaaaaaaaaaaaaa''" null_note]
  note t1 = t [THEN conjunct1]
  note t2 = t [THEN conjunct2, THEN conjunct1]
  note t3 = t [THEN conjunct2, THEN conjunct2, THEN conjunct1]
  note t5 = t [THEN conjunct2, THEN conjunct2, THEN conjunct2, THEN conjunct2, THEN conjunct1,
               THEN mp, OF a]
  note t7 = t [THEN conjunct2, THEN conjunct2, THEN conjunct2, THEN conjunct2, THEN conjunct2,
               THEN conjunct2, THEN mp, OF b]
  show ?thesis
    by (intro conjI t1 t2 a t5 b t7 t3 patch_mug_in_stock)
qed

subsection \<open>The order status update\<close>

lemma update_one_not_found:
  "find_one coll oid = None \<Longrightarrow> update_one coll oid updates = (coll, 0)"
  by (induction coll) (auto simp: find_one_def split: if_splits)

lemma update_order_existing:
  assumes key: "x_admin_key = Some (getenv (ADMIN_KEY e) ''admin123'')"
    and oid: "to_object_id order_id = Inr oid"
    and ex: "find_one (order_coll s) oid = Some d"
  shows "\<exists>pre post d' out.
       order_coll s = pre @ d # post
     \<and> update_order e s order_id payload x_admin_key =
         (s\<lparr>order_coll := pre @ d' # post\<rparr>, Inr (RDict out))
     \<and> serialize_doc (Some d') = Inr (RDict out)
     \<and> map_of d' ''status'' = Some (VStr (osu_status payload))
     \<and> map_of d' ''tracking_note'' =
         (case osu_tracking_note payload of None \<Rightarrow> map_of d ''tracking_note''
          | Some n \<Rightarrow> Some (VStr n))
     \<and> map_of d' ''updated_at'' = Some (bson (VDatetime (utcnow e)))
     \<and> (\<forall>k. k \<notin> {''status'', ''tracking_note'', ''updated_at''} \<longrightarrow> map_of d' k = map_of d k)"
proof -
  define dump where "dump = OrderStatusUpdate_model_dump_exclude_none payload"
  define updates where "updates = AList.update ''updated_at'' (VDatetime (utcnow e)) dump"
  define d' where "d' = set_fields d updates"
  have dd: "distinct (map fst dump)"
    by (cases "osu_tracking_note payload")
       (simp_all add: dump_def OrderStatusUpdate_model_dump_exclude_none_def dump_opt_def)
  have dist: "distinct (map fst updates)"
    unfolding updates_def by (rule distinct_update [OF dd])
  have mu: "map_of updates k = ((map_of dump)(''updated_at'' \<mapsto> VDatetime (utcnow e))) k" for k
    by (simp add: updates_def update_conv')
  have md: "map_of dump k =
      (if k = ''status'' then Some (VStr (osu_status payload))
       else if k = ''tracking_note'' then map_option VStr (osu_tracking_note payload) else None)" for k
    by (cases "osu_tracking_note payload")
       (simp_all add: dump_def OrderStatusUpdate_model_dump_exclude_none_def dump_opt_def)
  note look = set_fields_lookup [OF dist, of d, folded d'_def]
  have f1: "map_of d' ''status'' = Some (VStr (osu_status payload))"
    by (simp add: look mu md)
  have f2: "map_of d' ''tracking_note'' =
         (case osu_tracking_note payload of None \<Rightarrow> map_of d ''tracking_note''
          | Some n \<Rightarrow> Some (VStr n))"
    by (simp add: look mu md split: option.split)
  have f3: "map_of d' ''updated_at'' = Some (bson (VDatetime (utcnow e)))"
    by (simp add: look mu)
  have f4: "\<forall>k. k \<notin> {''status'', ''tracking_note'', ''updated_at''} \<longrightarrow> map_of d' k = map_of d k"
    by (simp add: look mu md)
  from update_one_found [OF ex, of updates] obtain pre post where
    c: "order_coll s = pre @ d # post" and pre: "\<forall>x\<in>set pre. \<not> has_id oid x" and
    u: "update_one (order_coll s) oid updates = (pre @ d' # post, 1)"
    unfolding d'_def by blast
  have "map_of d' ''_id'' = map_of d ''_id''" using f4 by simp
  moreover have hd: "has_id oid d" by (rule find_one_SomeD [OF ex])
  ultimately have hd': "has_id oid d'" by (simp add: has_id_def)
  have fo: "find_one (pre @ d' # post) oid = Some d'"
    by (rule find_one_append_fresh [OF pre hd'])
  have i: "map_of d' ''_id'' = Some (VObjectId oid)" using hd' by (simp add: has_id_def)
  have "py_str (VObjectId oid) = Some (str_oid oid)" by simp
  from serialize_doc_Some [OF i this] obtain out where
    ser: "serialize_doc (Some d') = Inr (RDict out)" by auto
  have up: "update_order e s order_id payload x_admin_key =
         (s\<lparr>order_coll := pre @ d' # post\<rparr>, Inr (RDict out))"
    using oid u fo ser
    by (simp add: update_order_def require_admin_ok [OF key] Let_def updates_def dump_def)
  show ?thesis
    apply (rule exI [of _ pre])
    apply (rule exI [of _ post])
    apply (rule exI [of _ d'])
    apply (rule exI [of _ out])
    apply (intro conjI c up ser f1 f2 f3 f4)
    done
qed

lemma update_order_unknown:
  assumes key: "x_admin_key = Some (getenv (ADMIN_KEY e) ''admin123'')"
    and oid: "to_object_id order_id = Inr oid"
    and nex: "find_one (order_coll s) oid = None"
  shows "update_order e s order_id payload x_admin_key =
           (s, Inl (HTTPException 404 ''Order not found''))"
  using oid update_one_not_found [OF nex]
  by (simp add: update_order_def require_admin_ok [OF key] Let_def)

text \<open>
  C7, as amended. The order status update requires \<^verbatim>\<open>status\<close>: a body without it (or
  with \<^verbatim>\<open>null\<close> or a value that is not a string for it), such as a body that supplies
  \<^verbatim>\<open>tracking_note\<close> alone, is rejected as invalid input and the store is left as it
  was. With \<^verbatim>\<open>status\<close> supplied, for an admitted caller and an existing order, the
  stored status becomes the supplied one, \<^verbatim>\<open>tracking_note\<close> is replaced only when
  supplied and otherwise keeps its stored value, \<^verbatim>\<open>updated_at\<close> is set, every other
  field is unchanged and the serialized updated document is returned; an identifier
  that matches no order is answered 404 Not Found.
\<close>

theorem order_status_update:
  "(bosu_status ob \<in> {Absent, Null, Invalid} \<longrightarrow>
      patch_api_orders e s order_id ob x_admin_key = (s, Inl RequestValidationError))
   \<and> (x_admin_key = Some (getenv (ADMIN_KEY e) ''admin123'') \<longrightarrow>
        to_object_id order_id = Inr oid \<longrightarrow>
        find_one (order_coll s) oid = Some d \<longrightarrow>
        bosu_status ob = Given st \<longrightarrow>
        optional (bosu_tracking_note ob) = Inr note \<longrightarrow>
        (\<exists>pre post d' out.
            order_coll s = pre @ d # post
          \<and> patch_api_orders e s order_id ob x_admin_key =
              (s\<lparr>order_coll := pre @ d' # post\<rparr>, Inr (RDict out))
          \<and> serialize_doc (Some d') = Inr (RDict out)
          \<and> map_of d' ''status'' = Some (VStr st)
          \<and> map_of d' ''tracking_note'' =
              (case note of None \<Rightarrow> map_of d ''tracking_note'' | Some n \<Rightarrow> Some (VStr n))
          \<and> map_of d' ''updated_at'' = Some (bson (VDatetime (utcnow e)))
          \<and> (\<forall>k. k \<notin> {''status'', ''tracking_note'', ''updated_at''} \<longrightarrow>
                 map_of d' k = map_of d k)))
   \<and> (x_admin_key = Some (getenv (ADMIN_KEY e) ''admin123'') \<longrightarrow>
        to_object_id order_id = Inr oid \<longrightarrow>
        find_one (order_coll s) oid = None \<longrightarrow>
        bosu_status ob = Given st \<longrightarrow>
        optional (bosu_tracking_note ob) = Inr note \<longrightarrow>
        patch_api_orders e s order_id ob x_admin_key =
          (s, Inl (HTTPException 404 ''Order not found'')))"
proof (intro conjI impI)
  assume "bosu_status ob \<in> {Absent, Null, Invalid}"
  then have "required (bosu_status ob) = Inl RequestValidationError"
    by (auto simp: required_def)
  then show "patch_api_orders e s order_id ob x_admin_key = (s, Inl RequestValidationError)"
    by (simp add: patch_api_orders_def validate_OrderStatusUpdate_def ebind_def)
next
  assume key: "x_admin_key = Some (getenv (ADMIN_KEY e) ''admin123'')"
    and oid: "to_object_id order_id = Inr oid"
    and ex: "find_one (order_coll s) oid = Some d"
    and st: "bosu_status ob = Given st"
    and tn: "optional (bosu_tracking_note ob) = Inr note"
  have v: "validate_OrderStatusUpdate ob = Inr \<lparr>osu_status = st, osu_tracking_note = note\<rparr>"
    using st tn by (simp add: validate_OrderStatusUpdate_def ebind_def required_def)
  have p: "patch_api_orders e s order_id ob x_admin_key =
      update_order e s order_id \<lparr>osu_status = st, osu_tracking_note = note\<rparr> x_admin_key"
    by (simp add: patch_api_orders_def v)
  show "\<exists>pre post d' out.
            order_coll s = pre @ d # post
          \<and> patch_api_orders e s order_id ob x_admin_key =
              (s\<lparr>order_coll := pre @ d' # post\<rparr>, Inr (RDict out))
          \<and> serialize_doc (Some d') = Inr (RDict out)
          \<and> map_of d' ''status'' = Some (VStr st)
          \<and> map_of d' ''tracking_note'' =
              (case note of None \<Rightarrow> map_of d ''tracking_note'' | Some n \<Rightarrow> Some (VStr n))
          \<and> map_of d' ''updated_at'' = Some (bson (VDatetime (utcnow e)))
          \<and> (\<forall>k. k \<notin> {''status'', ''tracking_note'', ''updated_at''} \<longrightarrow>
                 map_of d' k = map_of d k)"
    using update_order_existing [OF key oid ex, of "\<lparr>osu_status = st, osu_tracking_note = note\<rparr>"]
    unfolding p by simp
next
  assume key: "x_admin_key = Some (getenv (ADMIN_KEY e) ''admin123'')"
    and oid: "to_object_id order_id = Inr oid"
    and nex: "find_one (order_coll s) oid = None"
    and st: "bosu_status ob = Given st"
    and tn: "optional (bosu_tracking_note ob) = Inr note"
  have v: "validate_OrderStatusUpdate ob = Inr \<lparr>osu_status = st, osu_tracking_note = note\<rparr>"
    using st tn by (simp add: validate_OrderStatusUpdate_def ebind_def required_def)
  show "patch_api_orders e s order_id ob x_admin_key =
          (s, Inl (HTTPException 404 ''Order not found''))"
    by (simp add: patch_api_orders_def v update_order_unknown [OF key oid nex])
qed

text \<open>The claim as first stated fails: a body with \<^verbatim>\<open>tracking_note\<close> alone is not
  accepted.\<close>

theorem order_status_update_counterexample:
  "patch_api_orders env0 store0 ''aaaaaaaaaaaaaaaaaaaaaaaa'' only_note (Some ''admin123'') =
     (store0, Inl RequestValidationError)"
  by (simp add: patch_api_orders_def validate_OrderStatusUpdate_def only_note_def required_def
        ebind_def)

lemma order0_oid: "to_object_id ''aaaaaaaaaaaaaaaaaaaaaaaa'' = Inr (ObjectId ''aaaaaaaaaaaaaaaaaaaaaaaa'')"
  by (simp add: to_object_id_def parse_oid_def is_hex_def lower_def to_lower_def)

lemma unknown_oid: "to_object_id ''ffffffffffffffffffffffff'' = Inr (ObjectId ''ffffffffffffffffffffffff'')"
  by (simp add: to_object_id_def parse_oid_def is_hex_def lower_def to_lower_def)

lemma find_order0: "find_one (order_coll store0) (ObjectId ''aaaaaaaaaaaaaaaaaaaaaaaa'') = Some order0"
  by (simp add: store0_def find_one_def has_id_def order0_def)

lemma find_unknown_order: "find_one (order_coll store0) (ObjectId ''ffffffffffffffffffffffff'') = None"
  by (simp add: store0_def find_one_def has_id_def order0_def)

theorem order_status_update_witness:
  "patch_api_orders env0 store0 ''aaaaaaaaaaaaaaaaaaaaaaaa'' only_note (Some ''admin123'') =
     (store0, Inl RequestValidationError)
   \<and> (\<exists>pre post d' out.
          order_coll store0 = pre @ order0 # post
        \<and> patch_api_orders env0 store0 ''aaaaaaaaaaaaaaaaaaaaaaaa'' only_status (Some ''admin123'') =
            (store0\<lparr>order_coll := pre @ d' # post\<rparr>, Inr (RDict out))
        \<and> map_of d' ''status'' = Some (VStr ''confirmed'')
        \<and> map_of d' ''tracking_note'' = None
        \<and> map_of d' ''total'' = Some (VFloat 1000))
   \<and> patch_api_orders env0 store0 ''ffffffffffffffffffffffff'' only_status (Some ''admin123'') =
     (store0, Inl (HTTPException 404 ''Order not found''))"
proof -
  have a: "bosu_status only_note \<in> {Absent, Null, Invalid}" by (simp add: only_note_def)
  have st: "bosu_status only_status = Given ''confirmed''" by (simp add: only_status_def)
  have tn: "optional (bosu_tracking_note only_status) = Inr None"
    by (simp add: only_status_def optional_def)
  have w1: "patch_api_orders env0 store0 ''aaaaaaaaaaaaaaaaaaaaaaaa'' only_note (Some ''admin123'') =
     (store0, Inl RequestValidationError)"
    by (rule order_status_update [THEN conjunct1, THEN mp, OF a])
  from order_status_update [THEN conjunct2, THEN conjunct1, THEN mp, THEN mp, THEN mp, THEN mp,
      THEN mp, OF env0_key order0_oid find_order0 st tn]
  obtain pre post d' out where
    o: "order_coll store0 = pre @ order0 # post
          \<and> patch_api_orders env0 store0 ''aaaaaaaaaaaaaaaaaaaaaaaa'' only_status (Some ''admin123'') =
              (store0\<lparr>order_coll := pre @ d' # post\<rparr>, Inr (RDict out))
          \<and> serialize_doc (Some d') = Inr (RDict out)
          \<and> map_of d' ''status'' = Some (VStr ''confirmed'')
          \<and> map_of d' ''tracking_note'' =
              (case None of None \<Rightarrow> map_of order0 ''tracking_note'' | Some n \<Rightarrow> Some (VStr n))
          \<and> map_of d' ''updated_at'' = Some (bson (VDatetime (utcnow env0)))
          \<and> (\<forall>k. k \<notin> {''status'', ''tracking_note'', ''updated_at''} \<longrightarrow>
                 map_of d' k = map_of order0 k)"
    by (elim exE)
  note c = o [THEN conjunct1]
  note up = o [THEN conjunct2, THEN conjunct1]
  note f1 = o [THEN conjunct2, THEN conjunct2, THEN conjunct2, THEN conjunct1]
  note f2 = o [THEN conjunct2, THEN conjunct2, THEN conjunct2, THEN conjunct2, THEN conjunct1]
  note f4 = o [THEN conjunct2, THEN conjunct2, THEN conjunct2, THEN conjunct2, THEN conjunct2,
               THEN conjunct2]
  have g2: "map_of d' ''tracking_note'' = None"
    using f2 by (simp add: order0_def)
  have "map_of d' ''total'' = map_of order0 ''total''"
    by (rule f4 [THEN spec, THEN mp]) simp
  then have g3: "map_of d' ''total'' = Some (VFloat 1000)"
    by (simp add: order0_def)
  have w2: "\<exists>pre post d' out.
          order_coll store0 = pre @ order0 # post
        \<and> patch_api_orders env0 store0 ''aaaaaaaaaaaaaaaaaaaaaaaa'' only_status (Some ''admin123'') =
            (store0\<lparr>order_coll := pre @ d' # post\<rparr>, Inr (RDict out))
        \<and> map_of d' ''status'' = Some (VStr ''confirmed'')
        \<and> map_of d' ''tracking_note'' = None
        \<and> map_of d' ''total'' = Some (VFloat 1000)"
    apply (rule exI [of _ pre])
    apply (rule exI [of _ post])
    apply (rule exI [of _ d'])
    apply (rule exI [of _ out])
    apply (intro conjI c up f1 g2 g3)
    done
  have w3: "patch_api_orders env0 store0 ''ffffffffffffffffffffffff'' only_status (Some ''admin123'') =
     (store0, Inl (HTTPException 404 ''Order not found''))"
    by (rule order_status_update [THEN conjunct2, THEN conjunct2, THEN mp, THEN mp, THEN mp,
          THEN mp, THEN mp, OF env0_key unknown_oid find_unknown_order st tn])
  show ?thesis by (intro conjI w1 w2 w3)
qed

subsection \<open>Product creation and the title\<close>

lemma validate_ProductCreate_Inr:
  assumes "validate_ProductCreate b = Inr p"
  shows "required (bpc_title b) = Inr (pc_title p)" and "pc_price p \<ge> 0"
  using assms
  by (auto simp: validate_ProductCreate_def ebind_def ge0_def split: sum.splits if_splits)

lemma create_product_ok:
  assumes key: "x_admin_key = Some (getenv (ADMIN_KEY e) ''admin123'')"
    and price: "pc_price p \<ge> 0"
    and wf: "parse_oid (str_oid (new_oid e)) = Some (new_oid e)"
    and fresh: "\<not> list_ex (has_id (new_oid e)) (product_coll s)"
  shows "\<exists>stored out.
       create_product e s p x_admin_key =
         (s\<lparr>product_coll := product_coll s @ [stored]\<rparr>, Inr (RDict out))
     \<and> map_of stored ''title'' = Some (VStr (pc_title p))
     \<and> map_of out ''title'' = Some (VStr (pc_title p))"
proof -
  define m where "m = \<lparr>p_title = pc_title p, p_description = pc_description p, p_price = pc_price p,
                p_category = pc_category p, p_in_stock = pc_in_stock p, p_image_url = None\<rparr>"
  define product0 where "product0 =
     (case pc_image_url p of
        None \<Rightarrow> Product_model_dump m
      | Some u \<Rightarrow> if u = [] then Product_model_dump m
                  else AList.update ''image_url'' (VStr u) (Product_model_dump m))"
  define product where "product = AList.update ''currency'' (VStr (pc_currency p)) product0"
  define stored where "stored = (''_id'', VObjectId (new_oid e)) #
       map (\<lambda>(k, v). (k, bson v))
         (AList.update ''updated_at'' (VDatetime (store_now e))
            (AList.update ''created_at'' (VDatetime (store_now e)) product))"
  have init: "Product_init (pc_title p) (pc_description p) (pc_price p) (pc_category p) (pc_in_stock p)
     = Inr m"
    using price by (simp add: Product_init_def m_def)
  have t0: "map_of product0 ''title'' = Some (VStr (pc_title p))"
    by (simp add: product0_def Product_model_dump_def m_def update_conv' split: option.split)
  have t1: "map_of product ''title'' = Some (VStr (pc_title p))"
    by (simp add: product_def update_conv' t0)
  have cd: "create_document e (product_coll s) product =
      Inr (product_coll s @ [stored], str_oid (new_oid e))"
    unfolding stored_def by (rule create_document_fresh [OF fresh])
  have hid: "has_id (new_oid e) stored" by (simp add: has_id_def stored_def)
  have pre: "\<forall>x\<in>set (product_coll s). \<not> has_id (new_oid e) x"
    using fresh by (simp add: list_ex_iff)
  have fo: "find_one (product_coll s @ [stored]) (new_oid e) = Some stored"
    by (rule find_one_append_fresh [OF pre hid])
  have s1: "map_of stored ''title'' = Some (VStr (pc_title p))"
    unfolding stored_def by (subst stored_lookup) (simp_all add: t1)
  have s6: "map_of stored ''_id'' = Some (VObjectId (new_oid e))" by (simp add: stored_def)
  have "py_str (VObjectId (new_oid e)) = Some (str_oid (new_oid e))" by simp
  from serialize_doc_Some [OF s6 this] obtain out where
    ser: "serialize_doc (Some stored) = Inr (RDict out)" and
    mo: "\<And>k. map_of out k =
              (if k = ''id'' then Some (VStr (str_oid (new_oid e)))
               else if k = ''_id'' then None
               else if k \<in> {''created_at'', ''updated_at'', ''placed_at''} then iso_val (map_of stored k)
               else map_of stored k)" by auto
  have cp: "create_product e s p x_admin_key =
         (s\<lparr>product_coll := product_coll s @ [stored]\<rparr>, Inr (RDict out))"
    using init cd [unfolded product_def product0_def] wf fo ser
    by (simp add: create_product_def require_admin_ok [OF key] Let_def)
  have o1: "map_of out ''title'' = Some (VStr (pc_title p))" by (simp add: mo s1)
  show ?thesis
    apply (rule exI [of _ stored])
    apply (rule exI [of _ out])
    apply (intro conjI cp s1 o1)
    done
qed

subsection \<open>The rendering of a timestamp\<close>

lemma digit_table:
  "list_all (\<lambda>m. is_digit (''0123456789'' ! m) \<and> digit_val (''0123456789'' ! m) = m) [0..<10]"
  by code_simp

lemma digit_facts: "is_digit (digit n) \<and> digit_val (digit n) = n mod 10"
proof -
  have "n mod 10 \<in> set [0..<10]" by simp
  with digit_table show ?thesis
    unfolding digit_def list_all_iff by (rule bspec)
qed

lemma digits_pad: "digits (pad2 n)" "digits (pad4 n)" "digits (pad6 n)"
  by (simp_all add: digits_def pad2_def pad4_def pad6_def digit_facts)

lemma div10_step: "10 * (m div 10) + m mod 10 = (m::nat)"
  by simp

lemma dec_pad2: "n < 100 \<Longrightarrow> dec (pad2 n) = n"
proof -
  assume n: "n < 100"
  have a: "(n div 10) mod 10 = n div 10" using n by simp
  have "dec (pad2 n) = 10 * ((n div 10) mod 10) + n mod 10"
    by (simp add: dec_def pad2_def digit_facts)
  also have "\<dots> = n" by (subst a, rule div10_step)
  finally show ?thesis .
qed

lemma dec_pad4: "n < 10000 \<Longrightarrow> dec (pad4 n) = n"
proof -
  assume n: "n < 10000"
  have a: "(n div 1000) mod 10 = n div 1000" using n by simp
  have b: "n div 1000 = n div 100 div 10" by (simp add: div_mult2_eq)
  have c: "n div 100 = n div 10 div 10" by (simp add: div_mult2_eq)
  have s1: "10 * ((n div 1000) mod 10) + (n div 100) mod 10 = n div 100"
    by (subst a, subst b, rule div10_step)
  have s2: "10 * (n div 100) + (n div 10) mod 10 = n div 10"
    by (subst c, rule div10_step)
  have "dec (pad4 n) =
      10 * (10 * (10 * ((n div 1000) mod 10) + (n div 100) mod 10) + (n div 10) mod 10) + n mod 10"
    by (simp add: dec_def pad4_def digit_facts)
  also have "\<dots> = n" by (simp only: s1 s2 div10_step)
  finally show ?thesis .
qed

lemma dec_pad6: "n < 1000000 \<Longrightarrow> dec (pad6 n) = n"
proof -
  assume n: "n < 1000000"
  have a: "(n div 100000) mod 10 = n div 100000" using n by simp
  have b: "n div 100000 = n div 10000 div 10" by (simp add: div_mult2_eq)
  have c: "n div 10000 = n div 1000 div 10" by (simp add: div_mult2_eq)
  have d: "n div 1000 = n div 100 div 10" by (simp add: div_mult2_eq)
  have e: "n div 100 = n div 10 div 10" by (simp add: div_mult2_eq)
  have s1: "10 * ((n div 100000) mod 10) + (n div 10000) mod 10 = n div 10000"
    by (subst a, subst b, rule div10_step)
  have s2: "10 * (n div 10000) + (n div 1000) mod 10 = n div 1000"
    by (subst c, rule div10_step)
  have s3: "10 * (n div 1000) + (n div 100) mod 10 = n div 100"
    by (subst d, rule div10_step)
  have s4: "10 * (n div 100) + (n div 10) mod 10 = n div 10"
    by (subst e, rule div10_step)
  have "dec (pad6 n) =
      10 * (10 * (10 * (10 * (10 * ((n div 100000) mod 10) + (n div 10000) mod 10)
        + (n div 1000) mod 10) + (n div 100) mod 10) + (n div 10) mod 10) + n mod 10"
    by (simp add: dec_def pad6_def digit_facts)
  also have "\<dots> = n" by (simp only: s1 s2 s3 s4 div10_step)
  finally show ?thesis .
qed

lemma length_pad: "length (pad2 n) = 2" "length (pad4 n) = 4" "length (pad6 n) = 6"
  by (simp_all add: pad2_def pad4_def pad6_def)

lemma isoformat_iso8601:
  assumes "valid_datetime t"
  shows "iso8601_of (isoformat t) t"
proof -
  from assms have r: "dt_year t < 10000" "dt_month t < 100" "dt_day t < 100" "dt_hour t < 100"
    "dt_minute t < 100" "dt_second t < 100" "dt_microsecond t < 1000000"
    by (simp_all add: valid_datetime_def)
  show ?thesis
    unfolding iso8601_of_def isoformat_def
    by (simp add: length_pad nth_append digits_pad dec_pad2 [OF r(2)] dec_pad2 [OF r(3)]
          dec_pad2 [OF r(4)] dec_pad2 [OF r(5)] dec_pad2 [OF r(6)] dec_pad4 [OF r(1)]
          dec_pad6 [OF r(7)])
qed

subsection \<open>Serialization of outbound documents: the contract\<close>

lemma isoformat_t_frac: "isoformat t_frac = ''2024-01-02T03:04:05.678000''"
  by (simp add: isoformat_def t_frac_def pad4_def pad2_def pad6_def digit_def)

lemma valid_t_old: "valid_datetime t_old"
  by (simp add: valid_datetime_def t_old_def)

lemma valid_t_frac: "valid_datetime t_frac"
  by (simp add: valid_datetime_def t_frac_def)

lemma iso8601_of_unique:
  assumes "iso8601_of s t" "iso8601_of s t'"
  shows "t' = t"
proof -
  from assms have y: "dt_year t' = dt_year t" and mo: "dt_month t' = dt_month t"
    and da: "dt_day t' = dt_day t" and h: "dt_hour t' = dt_hour t"
    and mi: "dt_minute t' = dt_minute t" and se: "dt_second t' = dt_second t"
    by (simp_all add: iso8601_of_def)
  from assms have l: "(dt_microsecond t = 0 \<longrightarrow> length s = 19)
      \<and> (dt_microsecond t \<noteq> 0 \<longrightarrow> length s = 26 \<and> dec (drop 20 s) = dt_microsecond t)"
    and l': "(dt_microsecond t' = 0 \<longrightarrow> length s = 19)
      \<and> (dt_microsecond t' \<noteq> 0 \<longrightarrow> length s = 26 \<and> dec (drop 20 s) = dt_microsecond t')"
    by (simp_all add: iso8601_of_def split: if_splits)
  have mu: "dt_microsecond t' = dt_microsecond t"
  proof (cases "dt_microsecond t = 0")
    case True
    with l have "length s = 19" by simp
    with l' have "dt_microsecond t' = 0" by (cases "dt_microsecond t' = 0") simp_all
    with True show ?thesis by simp
  next
    case False
    with l have a: "length s = 26" "dec (drop 20 s) = dt_microsecond t" by simp_all
    with l' have "dt_microsecond t' \<noteq> 0" by (cases "dt_microsecond t' = 0") simp_all
    with l' a show ?thesis by simp
  qed
  from y mo da h mi se mu show ?thesis by (simp add: datetime.equality)
qed

text \<open>
  C5. Serializing a stored document, one whose \<^verbatim>\<open>_id\<close> holds an ObjectId, yields a dict
  in which \<^verbatim>\<open>id\<close> is the identifier as a string and \<^verbatim>\<open>_id\<close> does not occur. Each of
  \<^verbatim>\<open>created_at\<close>, \<^verbatim>\<open>updated_at\<close>, \<^verbatim>\<open>placed_at\<close> that holds a datetime is replaced by
  a string, the \<^verbatim>\<open>isoformat()\<close> of that datetime, and this string is the ISO 8601
  rendering of it: year, month, day, hour, minute and second as decimal digit groups of
  widths 4, 2, 2, 2, 2, 2 that denote the fields of the datetime, separated by
  \<^verbatim>\<open>-\<close>, \<^verbatim>\<open>-\<close>, \<^verbatim>\<open>T\<close>, \<^verbatim>\<open>:\<close>, \<^verbatim>\<open>:\<close>, and, when the microsecond is not zero, a point
  and six digits that denote it; so two datetimes that are rendered alike are equal.
  A field absent from the document is absent from the output, and every other field,
  also a datetime under another key, is carried over as it is. A list response
  serializes each of its documents in this way.
\<close>

theorem serialize_doc_contract:
  assumes "map_of d ''_id'' = Some (VObjectId oid)"
  shows "\<exists>out. serialize_doc (Some d) = Inr (RDict out)
     \<and> map_of out ''id'' = Some (VStr (str_oid oid))
     \<and> map_of out ''_id'' = None
     \<and> (\<forall>k\<in>{''created_at'', ''updated_at'', ''placed_at''}. \<forall>t.
           map_of d k = Some (VDatetime t) \<longrightarrow> map_of out k = Some (VStr (isoformat t)))
     \<and> (\<forall>k\<in>{''created_at'', ''updated_at'', ''placed_at''}. \<forall>t.
           map_of d k = Some (VDatetime t) \<longrightarrow> valid_datetime t \<longrightarrow>
           (\<exists>s. map_of out k = Some (VStr s) \<and> iso8601_of s t \<and>
                (\<forall>t'. iso8601_of s t' \<longrightarrow> t' = t)))
     \<and> (\<forall>k. k \<noteq> ''id'' \<longrightarrow> map_of d k = None \<longrightarrow> map_of out k = None)
     \<and> (\<forall>k v. k \<noteq> ''id'' \<longrightarrow> k \<noteq> ''_id'' \<longrightarrow> map_of d k = Some v \<longrightarrow>
           (k \<in> {''created_at'', ''updated_at'', ''placed_at''} \<longrightarrow> (\<forall>t. v \<noteq> VDatetime t)) \<longrightarrow>
           map_of out k = Some v)
     \<and> (\<forall>ds. (\<forall>x\<in>set ds. \<exists>i. map_of x ''_id'' = Some (VObjectId i)) \<longrightarrow>
           (\<exists>outs. serialize_all ds = Inr outs \<and> length outs = length ds \<and>
              (\<forall>i<length ds. serialize_doc (Some (ds ! i)) = Inr (outs ! i))))"
proof -
  have "py_str (VObjectId oid) = Some (str_oid oid)" by simp
  from serialize_doc_Some [OF assms this] obtain out where
    s: "serialize_doc (Some d) = Inr (RDict out)" and
    m: "\<And>k. map_of out k =
              (if k = ''id'' then Some (VStr (str_oid oid))
               else if k = ''_id'' then None
               else if k \<in> {''created_at'', ''updated_at'', ''placed_at''} then iso_val (map_of d k)
               else map_of d k)" by blast
  have 1: "map_of out ''id'' = Some (VStr (str_oid oid))" by (simp add: m)
  have 2: "map_of out ''_id'' = None" by (simp add: m)
  have 3: "\<forall>k\<in>{''created_at'', ''updated_at'', ''placed_at''}. \<forall>t.
           map_of d k = Some (VDatetime t) \<longrightarrow> map_of out k = Some (VStr (isoformat t))"
    by (auto simp: m iso_val_def)
  have 7: "\<forall>k\<in>{''created_at'', ''updated_at'', ''placed_at''}. \<forall>t.
           map_of d k = Some (VDatetime t) \<longrightarrow> valid_datetime t \<longrightarrow>
           (\<exists>s. map_of out k = Some (VStr s) \<and> iso8601_of s t \<and>
                (\<forall>t'. iso8601_of s t' \<longrightarrow> t' = t))"
  proof (intro ballI allI impI)
    fix k t
    assume k: "k \<in> {''created_at'', ''updated_at'', ''placed_at''}"
      and d: "map_of d k = Some (VDatetime t)" and v: "valid_datetime t"
    from 3 k d have o: "map_of out k = Some (VStr (isoformat t))" by blast
    have i: "iso8601_of (isoformat t) t" by (rule isoformat_iso8601 [OF v])
    have u: "\<forall>t'. iso8601_of (isoformat t) t' \<longrightarrow> t' = t"
      by (intro allI impI) (rule iso8601_of_unique [OF i])
    from o i u show "\<exists>s. map_of out k = Some (VStr s) \<and> iso8601_of s t \<and>
                (\<forall>t'. iso8601_of s t' \<longrightarrow> t' = t)" by blast
  qed
  have 4: "\<forall>k. k \<noteq> ''id'' \<longrightarrow> map_of d k = None \<longrightarrow> map_of out k = None"
    by (auto simp: m iso_val_def)
  have 5: "\<forall>k v. k \<noteq> ''id'' \<longrightarrow> k \<noteq> ''_id'' \<longrightarrow> map_of d k = Some v \<longrightarrow>
           (k \<in> {''created_at'', ''updated_at'', ''placed_at''} \<longrightarrow> (\<forall>t. v \<noteq> VDatetime t)) \<longrightarrow>
           map_of out k = Some v"
  proof (intro allI impI)
    fix k v
    assume a: "k \<noteq> ''id''" "k \<noteq> ''_id''" "map_of d k = Some v"
      "k \<in> {''created_at'', ''updated_at'', ''placed_at''} \<longrightarrow> (\<forall>t. v \<noteq> VDatetime t)"
    show "map_of out k = Some v"
    proof (cases "k \<in> {''created_at'', ''updated_at'', ''placed_at''}")
      case True
      with a(4) have "\<forall>t. v \<noteq> VDatetime t" by (rule mp)
      then have "iso_val (Some v) = Some v" by (cases v) (simp_all add: iso_val_def)
      with a True show ?thesis by (simp only: m if_False if_True)
    next
      case False
      with a show ?thesis by (simp only: m if_False)
    qed
  qed
  have 6: "\<forall>ds. (\<forall>x\<in>set ds. \<exists>i. map_of x ''_id'' = Some (VObjectId i)) \<longrightarrow>
           (\<exists>outs. serialize_all ds = Inr outs \<and> length outs = length ds \<and>
              (\<forall>i<length ds. serialize_doc (Some (ds ! i)) = Inr (outs ! i)))"
    using serialize_all_each by blast
  show ?thesis
    by (rule exI [of _ out]) (intro conjI s 1 2 3 7 4 5 6)
qed
theorem serialize_doc_contract_witness:
  "(\<exists>out. serialize_doc (Some tea) = Inr (RDict out)
     \<and> map_of out ''id'' = Some (VStr ''0123456789abcdef01234567'')
     \<and> map_of out ''_id'' = None
     \<and> map_of out ''created_at'' = Some (VStr ''2023-12-31T23:59:58'')
     \<and> iso8601_of ''2023-12-31T23:59:58'' t_old
     \<and> map_of out ''updated_at'' = Some (VStr ''2023-12-31T23:59:58'')
     \<and> map_of out ''placed_at'' = None
     \<and> map_of out ''title'' = Some (VStr ''Tea'')
     \<and> map_of out ''image_url'' = Some VNone)
   \<and> (\<exists>out. serialize_doc (Some stamped) = Inr (RDict out)
     \<and> map_of out ''id'' = Some (VStr ''bbbbbbbbbbbbbbbbbbbbbbbb'')
     \<and> map_of out ''_id'' = None
     \<and> map_of out ''placed_at'' = Some (VStr ''2024-01-02T03:04:05.678000'')
     \<and> iso8601_of ''2024-01-02T03:04:05.678000'' t_frac
     \<and> \<not> iso8601_of ''2024-01-02T03:04:05.678000'' t_old
     \<and> map_of out ''created_at'' = None
     \<and> map_of out ''status'' = Some (VStr ''new'')
     \<and> map_of out ''note'' = Some (VDatetime t_frac))"
proof (rule conjI)
  have i: "map_of tea ''_id'' = Some (VObjectId (ObjectId ''0123456789abcdef01234567''))"
    by (simp add: tea_def)
  have c1: "map_of tea ''created_at'' = Some (VDatetime t_old)" by (simp add: tea_def)
  have c2: "map_of tea ''updated_at'' = Some (VDatetime t_old)" by (simp add: tea_def)
  have c3: "map_of tea ''placed_at'' = None" by (simp add: tea_def)
  have c4: "map_of tea ''title'' = Some (VStr ''Tea'')" by (simp add: tea_def)
  have c5: "map_of tea ''image_url'' = Some VNone" by (simp add: tea_def)
  from serialize_doc_contract [OF i] obtain out where
    o: "serialize_doc (Some tea) = Inr (RDict out)
     \<and> map_of out ''id'' = Some (VStr (str_oid (ObjectId ''0123456789abcdef01234567'')))
     \<and> map_of out ''_id'' = None
     \<and> (\<forall>k\<in>{''created_at'', ''updated_at'', ''placed_at''}. \<forall>t.
           map_of tea k = Some (VDatetime t) \<longrightarrow> map_of out k = Some (VStr (isoformat t)))
     \<and> (\<forall>k\<in>{''created_at'', ''updated_at'', ''placed_at''}. \<forall>t.
           map_of tea k = Some (VDatetime t) \<longrightarrow> valid_datetime t \<longrightarrow>
           (\<exists>s. map_of out k = Some (VStr s) \<and> iso8601_of s t \<and>
                (\<forall>t'. iso8601_of s t' \<longrightarrow> t' = t)))
     \<and> (\<forall>k. k \<noteq> ''id'' \<longrightarrow> map_of tea k = None \<longrightarrow> map_of out k = None)
     \<and> (\<forall>k v. k \<noteq> ''id'' \<longrightarrow> k \<noteq> ''_id'' \<longrightarrow> map_of tea k = Some v \<longrightarrow>
           (k \<in> {''created_at'', ''updated_at'', ''placed_at''} \<longrightarrow> (\<forall>t. v \<noteq> VDatetime t)) \<longrightarrow>
           map_of out k = Some v)
     \<and> (\<forall>ds. (\<forall>x\<in>set ds. \<exists>i. map_of x ''_id'' = Some (VObjectId i)) \<longrightarrow>
           (\<exists>outs. serialize_all ds = Inr outs \<and> length outs = length ds \<and>
              (\<forall>i<length ds. serialize_doc (Some (ds ! i)) = Inr (outs ! i))))" ..
  note s = o [THEN conjunct1]
  note a = o [THEN conjunct2, THEN conjunct1]
  note b = o [THEN conjunct2, THEN conjunct2, THEN conjunct1]
  note t = o [THEN conjunct2, THEN conjunct2, THEN conjunct2, THEN conjunct1]
  note e = o [THEN conjunct2, THEN conjunct2, THEN conjunct2, THEN conjunct2, THEN conjunct1]
  note n = o [THEN conjunct2, THEN conjunct2, THEN conjunct2, THEN conjunct2, THEN conjunct2,
              THEN conjunct1]
  note v = o [THEN conjunct2, THEN conjunct2, THEN conjunct2, THEN conjunct2, THEN conjunct2,
              THEN conjunct2, THEN conjunct1]
  have w1: "map_of out ''id'' = Some (VStr ''0123456789abcdef01234567'')" using a by simp
  have "map_of out ''created_at'' = Some (VStr (isoformat t_old))"
    by (rule t [THEN bspec, THEN spec, THEN mp, OF _ c1]) simp
  then have w3: "map_of out ''created_at'' = Some (VStr ''2023-12-31T23:59:58'')"
    by (simp only: isoformat_t_old)
  have "\<exists>s. map_of out ''created_at'' = Some (VStr s) \<and> iso8601_of s t_old \<and>
                (\<forall>t'. iso8601_of s t' \<longrightarrow> t' = t_old)"
    by (rule e [THEN bspec, THEN spec, THEN mp, THEN mp, OF _ c1 valid_t_old]) simp
  then obtain s' where s': "map_of out ''created_at'' = Some (VStr s')" "iso8601_of s' t_old"
    by (elim exE conjE)
  from s'(1) w3 have "s' = ''2023-12-31T23:59:58''" by simp
  with s'(2) have w3i: "iso8601_of ''2023-12-31T23:59:58'' t_old" by (rule subst [rotated])
  have "map_of out ''updated_at'' = Some (VStr (isoformat t_old))"
    by (rule t [THEN bspec, THEN spec, THEN mp, OF _ c2]) simp
  then have w4: "map_of out ''updated_at'' = Some (VStr ''2023-12-31T23:59:58'')"
    by (simp only: isoformat_t_old)
  have w5: "map_of out ''placed_at'' = None"
    by (rule n [THEN spec, THEN mp, THEN mp, OF _ c3]) simp
  have w6: "map_of out ''title'' = Some (VStr ''Tea'')"
    by (rule v [THEN spec, THEN spec, THEN mp, THEN mp, THEN mp, THEN mp, OF _ _ c4]) simp_all
  have w7: "map_of out ''image_url'' = Some VNone"
    by (rule v [THEN spec, THEN spec, THEN mp, THEN mp, THEN mp, THEN mp, OF _ _ c5]) simp_all
  show "\<exists>out. serialize_doc (Some tea) = Inr (RDict out)
     \<and> map_of out ''id'' = Some (VStr ''0123456789abcdef01234567'')
     \<and> map_of out ''_id'' = None
     \<and> map_of out ''created_at'' = Some (VStr ''2023-12-31T23:59:58'')
     \<and> iso8601_of ''2023-12-31T23:59:58'' t_old
     \<and> map_of out ''updated_at'' = Some (VStr ''2023-12-31T23:59:58'')
     \<and> map_of out ''placed_at'' = None
     \<and> map_of out ''title'' = Some (VStr ''Tea'')
     \<and> map_of out ''image_url'' = Some VNone"
    by (rule exI [of _ out]) (intro conjI s w1 b w3 w3i w4 w5 w6 w7)
next
  have i: "map_of stamped ''_id'' = Some (VObjectId (ObjectId ''bbbbbbbbbbbbbbbbbbbbbbbb''))"
    by (simp add: stamped_def)
  have c1: "map_of stamped ''placed_at'' = Some (VDatetime t_frac)" by (simp add: stamped_def)
  have c2: "map_of stamped ''created_at'' = None" by (simp add: stamped_def)
  have c3: "map_of stamped ''status'' = Some (VStr ''new'')" by (simp add: stamped_def)
  have c4: "map_of stamped ''note'' = Some (VDatetime t_frac)" by (simp add: stamped_def)
  from serialize_doc_contract [OF i] obtain out where
    o: "serialize_doc (Some stamped) = Inr (RDict out)
     \<and> map_of out ''id'' = Some (VStr (str_oid (ObjectId ''bbbbbbbbbbbbbbbbbbbbbbbb'')))
     \<and> map_of out ''_id'' = None
     \<and> (\<forall>k\<in>{''created_at'', ''updated_at'', ''placed_at''}. \<forall>t.
           map_of stamped k = Some (VDatetime t) \<longrightarrow> map_of out k = Some (VStr (isoformat t)))
     \<and> (\<forall>k\<in>{''created_at'', ''updated_at'', ''placed_at''}. \<forall>t.
           map_of stamped k = Some (VDatetime t) \<longrightarrow> valid_datetime t \<longrightarrow>
           (\<exists>s. map_of out k = Some (VStr s) \<and> iso8601_of s t \<and>
                (\<forall>t'. iso8601_of s t' \<longrightarrow> t' = t)))
     \<and> (\<forall>k. k \<noteq> ''id'' \<longrightarrow> map_of stamped k = None \<longrightarrow> map_of out k = None)
     \<and> (\<forall>k v. k \<noteq> ''id'' \<longrightarrow> k \<noteq> ''_id'' \<longrightarrow> map_of stamped k = Some v \<longrightarrow>
           (k \<in> {''created_at'', ''updated_at'', ''placed_at''} \<longrightarrow> (\<forall>t. v \<noteq> VDatetime t)) \<longrightarrow>
           map_of out k = Some v)
     \<and> (\<forall>ds. (\<forall>x\<in>set ds. \<exists>i. map_of x ''_id'' = Some (VObjectId i)) \<longrightarrow>
           (\<exists>outs. serialize_all ds = Inr outs \<and> length outs = length ds \<and>
              (\<forall>i<length ds. serialize_doc (Some (ds ! i)) = Inr (outs ! i))))" ..
  note s = o [THEN conjunct1]
  note a = o [THEN conjunct2, THEN conjunct1]
  note b = o [THEN conjunct2, THEN conjunct2, THEN conjunct1]
  note t = o [THEN conjunct2, THEN conjunct2, THEN conjunct2, THEN conjunct1]
  note e = o [THEN conjunct2, THEN conjunct2, THEN conjunct2, THEN conjunct2, THEN conjunct1]
  note n = o [THEN conjunct2, THEN conjunct2, THEN conjunct2, THEN conjunct2, THEN conjunct2,
              THEN conjunct1]
  note v = o [THEN conjunct2, THEN conjunct2, THEN conjunct2, THEN conjunct2, THEN conjunct2,
              THEN conjunct2, THEN conjunct1]
  have w1: "map_of out ''id'' = Some (VStr ''bbbbbbbbbbbbbbbbbbbbbbbb'')" using a by simp
  have "map_of out ''placed_at'' = Some (VStr (isoformat t_frac))"
    by (rule t [THEN bspec, THEN spec, THEN mp, OF _ c1]) simp
  then have w3: "map_of out ''placed_at'' = Some (VStr ''2024-01-02T03:04:05.678000'')"
    by (simp only: isoformat_t_frac)
  have "\<exists>s. map_of out ''placed_at'' = Some (VStr s) \<and> iso8601_of s t_frac \<and>
                (\<forall>t'. iso8601_of s t' \<longrightarrow> t' = t_frac)"
    by (rule e [THEN bspec, THEN spec, THEN mp, THEN mp, OF _ c1 valid_t_frac]) simp
  then obtain s' where s': "map_of out ''placed_at'' = Some (VStr s')" "iso8601_of s' t_frac"
    "\<forall>t'. iso8601_of s' t' \<longrightarrow> t' = t_frac"
    by (elim exE conjE)
  from s'(1) w3 have q: "s' = ''2024-01-02T03:04:05.678000''" by simp
  with s'(2) have w3i: "iso8601_of ''2024-01-02T03:04:05.678000'' t_frac" by (rule subst [rotated])
  have ne: "t_old \<noteq> t_frac" by (simp add: t_old_def t_frac_def)
  have nn: "\<not> iso8601_of s' t_old"
  proof
    assume "iso8601_of s' t_old"
    then have "t_old = t_frac" by (rule s'(3) [THEN spec, THEN mp])
    with ne show False ..
  qed
  note w3n = nn [unfolded q]
  have w5: "map_of out ''created_at'' = None"
    by (rule n [THEN spec, THEN mp, THEN mp, OF _ c2]) simp
  have w6: "map_of out ''status'' = Some (VStr ''new'')"
    by (rule v [THEN spec, THEN spec, THEN mp, THEN mp, THEN mp, THEN mp, OF _ _ c3]) simp_all
  have w7: "map_of out ''note'' = Some (VDatetime t_frac)"
    by (rule v [THEN spec, THEN spec, THEN mp, THEN mp, THEN mp, THEN mp, OF _ _ c4]) simp_all
  show "\<exists>out. serialize_doc (Some stamped) = Inr (RDict out)
     \<and> map_of out ''id'' = Some (VStr ''bbbbbbbbbbbbbbbbbbbbbbbb'')
     \<and> map_of out ''_id'' = None
     \<and> map_of out ''placed_at'' = Some (VStr ''2024-01-02T03:04:05.678000'')
     \<and> iso8601_of ''2024-01-02T03:04:05.678000'' t_frac
     \<and> \<not> iso8601_of ''2024-01-02T03:04:05.678000'' t_old
     \<and> map_of out ''created_at'' = None
     \<and> map_of out ''status'' = Some (VStr ''new'')
     \<and> map_of out ''note'' = Some (VDatetime t_frac)"
    by (rule exI [of _ out]) (intro conjI s w1 b w3 w3i w3n w5 w6 w7)
qed

subsection \<open>Product creation: what is required of the title\<close>

lemma env0_oid_fresh_products: "\<not> list_ex (has_id (new_oid env0)) (product_coll store0)"
  by (simp add: env0_def store0_def tea_def mug_def has_id_def)

lemma validate_empty_title:
  "validate_ProductCreate empty_title =
     Inr \<lparr>pc_title = [], pc_description = None, pc_price = 1500, pc_currency = ''SYP'',
          pc_category = ''drinks'', pc_image_url = None, pc_in_stock = True\<rparr>"
  by (simp add: validate_ProductCreate_def empty_title_def ebind_def required_def optional_def
      with_default_def ge0_def)

lemma validate_ProductCreate_no_title:
  assumes "bpc_title b \<in> {Absent, Null, Invalid}"
  shows "validate_ProductCreate b = Inl RequestValidationError"
proof -
  from assms have "required (bpc_title b) = Inl RequestValidationError"
    by (cases "bpc_title b") (simp_all add: required_def)
  then show ?thesis by (simp add: validate_ProductCreate_def ebind_def)
qed

lemma create_empty_title:
  "\<exists>stored out.
       post_api_products env0 store0 empty_title (Some ''admin123'') =
         (store0\<lparr>product_coll := product_coll store0 @ [stored]\<rparr>, Inr (RDict out))
     \<and> map_of stored ''title'' = Some (VStr [])
     \<and> map_of out ''title'' = Some (VStr [])"
proof -
  let ?p = "\<lparr>pc_title = [], pc_description = None, pc_price = 1500, pc_currency = ''SYP'',
          pc_category = ''drinks'', pc_image_url = None, pc_in_stock = True\<rparr>"
  have key: "Some ''admin123'' = Some (getenv (ADMIN_KEY env0) ''admin123'')"
    by (simp add: env0_key)
  have price: "pc_price ?p \<ge> 0" by simp
  from create_product_ok [OF key price env0_oid_wf env0_oid_fresh_products]
  obtain stored out where
    o: "create_product env0 store0 ?p (Some ''admin123'') =
         (store0\<lparr>product_coll := product_coll store0 @ [stored]\<rparr>, Inr (RDict out))
     \<and> map_of stored ''title'' = Some (VStr (pc_title ?p))
     \<and> map_of out ''title'' = Some (VStr (pc_title ?p))"
    by (elim exE)
  have p: "post_api_products env0 store0 empty_title (Some ''admin123'') =
        create_product env0 store0 ?p (Some ''admin123'')"
    by (simp only: post_api_products_def validate_empty_title sum.case)
  have t: "pc_title ?p = []" by simp
  show ?thesis
    apply (rule exI [of _ stored])
    apply (rule exI [of _ out])
    apply (intro conjI)
      apply (simp only: p o [THEN conjunct1])
     apply (rule o [THEN conjunct2, THEN conjunct1, unfolded t])
    apply (rule o [THEN conjunct2, THEN conjunct2, unfolded t])
    done
qed

text \<open>
  C8, as the claim states it, fails: the title of \<^verbatim>\<open>ProductCreate\<close> is declared
  \<^verbatim>\<open>title: str\<close>, with no minimum length, and \<^verbatim>\<open>Product\<close> declares it
  \<^verbatim>\<open>str = Field(...)\<close>; a creation request whose title is the empty string, sent with
  the admin key, is not answered with a validation error: a product with the empty
  title is added to the collection.
\<close>

theorem create_product_title_counterexample:
  "snd (post_api_products env0 store0 empty_title (Some ''admin123'')) \<noteq> Inl RequestValidationError
   \<and> fst (post_api_products env0 store0 empty_title (Some ''admin123'')) \<noteq> store0
   \<and> length (product_coll (fst (post_api_products env0 store0 empty_title (Some ''admin123'')))) = 3
   \<and> map_of (last (product_coll (fst (post_api_products env0 store0 empty_title (Some ''admin123'')))))
        ''title'' = Some (VStr [])"
proof -
  from create_empty_title obtain stored out where
    o: "post_api_products env0 store0 empty_title (Some ''admin123'') =
         (store0\<lparr>product_coll := product_coll store0 @ [stored]\<rparr>, Inr (RDict out))"
    and t: "map_of stored ''title'' = Some (VStr [])"
    by (elim exE conjE)
  have l: "length (product_coll store0) = 2" by (simp add: store0_def)
  have n: "store0\<lparr>product_coll := product_coll store0 @ [stored]\<rparr> \<noteq> store0"
  proof
    assume "store0\<lparr>product_coll := product_coll store0 @ [stored]\<rparr> = store0"
    then have "product_coll (store0\<lparr>product_coll := product_coll store0 @ [stored]\<rparr>)
        = product_coll store0" by (rule arg_cong)
    then show False by simp
  qed
  show ?thesis
    apply (simp only: o fst_conv snd_conv)
    apply (intro conjI)
       apply simp
      apply (rule n)
     apply (simp add: l)
    apply (simp add: t)
    done
qed

text \<open>
  C8, as amended. For every product-creation request the title is required text: a body
  in which the title is absent, \<^verbatim>\<open>null\<close> or not a string is answered with a validation
  error, whatever the credential, and the store is unchanged. No minimum length is
  asked of it: when the body validates, the caller is admitted and the store accepts the
  insert (the identifier the driver generated is well formed and not yet in use), the
  title that was sent, the empty string included, is the title of the product that is
  added to the collection and of the document that is returned.
\<close>

theorem create_product_title:
  "(bpc_title b \<in> {Absent, Null, Invalid} \<longrightarrow>
      post_api_products e s b x_admin_key = (s, Inl RequestValidationError))
   \<and> (x_admin_key = Some (getenv (ADMIN_KEY e) ''admin123'') \<longrightarrow>
      validate_ProductCreate b = Inr p \<longrightarrow>
      parse_oid (str_oid (new_oid e)) = Some (new_oid e) \<longrightarrow>
      \<not> list_ex (has_id (new_oid e)) (product_coll s) \<longrightarrow>
      (\<exists>stored out.
          post_api_products e s b x_admin_key =
            (s\<lparr>product_coll := product_coll s @ [stored]\<rparr>, Inr (RDict out))
        \<and> bpc_title b = Given (pc_title p)
        \<and> map_of stored ''title'' = Some (VStr (pc_title p))
        \<and> map_of out ''title'' = Some (VStr (pc_title p))))"
proof (intro conjI impI)
  assume "bpc_title b \<in> {Absent, Null, Invalid}"
  then have "validate_ProductCreate b = Inl RequestValidationError"
    by (rule validate_ProductCreate_no_title)
  then show "post_api_products e s b x_admin_key = (s, Inl RequestValidationError)"
    by (simp add: post_api_products_def)
next
  assume key: "x_admin_key = Some (getenv (ADMIN_KEY e) ''admin123'')"
    and v: "validate_ProductCreate b = Inr p"
    and wf: "parse_oid (str_oid (new_oid e)) = Some (new_oid e)"
    and fresh: "\<not> list_ex (has_id (new_oid e)) (product_coll s)"
  from validate_ProductCreate_Inr [OF v]
  have r: "required (bpc_title b) = Inr (pc_title p)" and price: "pc_price p \<ge> 0" .
  from r have g: "bpc_title b = Given (pc_title p)"
    by (cases "bpc_title b") (simp_all add: required_def)
  from create_product_ok [OF key price wf fresh] obtain stored out where
    o: "create_product e s p x_admin_key =
         (s\<lparr>product_coll := product_coll s @ [stored]\<rparr>, Inr (RDict out))"
    and t1: "map_of stored ''title'' = Some (VStr (pc_title p))"
    and t2: "map_of out ''title'' = Some (VStr (pc_title p))"
    by (elim exE conjE)
  have p: "post_api_products e s b x_admin_key = create_product e s p x_admin_key"
    by (simp only: post_api_products_def v sum.case)
  show "\<exists>stored out.
          post_api_products e s b x_admin_key =
            (s\<lparr>product_coll := product_coll s @ [stored]\<rparr>, Inr (RDict out))
        \<and> bpc_title b = Given (pc_title p)
        \<and> map_of stored ''title'' = Some (VStr (pc_title p))
        \<and> map_of out ''title'' = Some (VStr (pc_title p))"
    apply (rule exI [of _ stored])
    apply (rule exI [of _ out])
    apply (intro conjI g t1 t2)
    apply (simp only: p o)
    done
qed

theorem create_product_title_witness:
  "post_api_products env0 store0 (empty_title\<lparr>bpc_title := Absent\<rparr>) None =
     (store0, Inl RequestValidationError)
   \<and> post_api_products env0 store0 (empty_title\<lparr>bpc_title := Null\<rparr>) (Some ''admin123'') =
     (store0, Inl RequestValidationError)
   \<and> (\<exists>stored out.
          post_api_products env0 store0 (empty_title\<lparr>bpc_title := Given ''Coffee''\<rparr>)
            (Some ''admin123'') =
            (store0\<lparr>product_coll := product_coll store0 @ [stored]\<rparr>, Inr (RDict out))
        \<and> map_of stored ''title'' = Some (VStr ''Coffee'')
        \<and> map_of out ''title'' = Some (VStr ''Coffee''))"
proof (intro conjI)
  have a: "bpc_title (empty_title\<lparr>bpc_title := Absent\<rparr>) \<in> {Absent, Null, Invalid}" by simp
  show "post_api_products env0 store0 (empty_title\<lparr>bpc_title := Absent\<rparr>) None =
     (store0, Inl RequestValidationError)"
    by (rule create_product_title [THEN conjunct1, THEN mp, OF a])
next
  have a: "bpc_title (empty_title\<lparr>bpc_title := Null\<rparr>) \<in> {Absent, Null, Invalid}" by simp
  show "post_api_products env0 store0 (empty_title\<lparr>bpc_title := Null\<rparr>) (Some ''admin123'') =
     (store0, Inl RequestValidationError)"
    by (rule create_product_title [THEN conjunct1, THEN mp, OF a])
next
  let ?p = "\<lparr>pc_title = ''Coffee'', pc_description = None, pc_price = 1500, pc_currency = ''SYP'',
          pc_category = ''drinks'', pc_image_url = None, pc_in_stock = True\<rparr>"
  have key: "Some ''admin123'' = Some (getenv (ADMIN_KEY env0) ''admin123'')"
    by (simp add: env0_key)
  have v: "validate_ProductCreate (empty_title\<lparr>bpc_title := Given ''Coffee''\<rparr>) = Inr ?p"
    by (simp add: validate_ProductCreate_def empty_title_def ebind_def required_def optional_def
      with_default_def ge0_def)
  have t: "pc_title ?p = ''Coffee''" by simp
  from create_product_title [THEN conjunct2, THEN mp, THEN mp, THEN mp, THEN mp,
      OF key v env0_oid_wf env0_oid_fresh_products]
  obtain stored out where
    o: "post_api_products env0 store0 (empty_title\<lparr>bpc_title := Given ''Coffee''\<rparr>)
            (Some ''admin123'') =
            (store0\<lparr>product_coll := product_coll store0 @ [stored]\<rparr>, Inr (RDict out))
        \<and> bpc_title (empty_title\<lparr>bpc_title := Given ''Coffee''\<rparr>) = Given (pc_title ?p)
        \<and> map_of stored ''title'' = Some (VStr (pc_title ?p))
        \<and> map_of out ''title'' = Some (VStr (pc_title ?p))"
    by (elim exE)
  show "\<exists>stored out.
          post_api_products env0 store0 (empty_title\<lparr>bpc_title := Given ''Coffee''\<rparr>)
            (Some ''admin123'') =
            (store0\<lparr>product_coll := product_coll store0 @ [stored]\<rparr>, Inr (RDict out))
        \<and> map_of stored ''title'' = Some (VStr ''Coffee'')
        \<and> map_of out ''title'' = Some (VStr ''Coffee'')"
    apply (rule exI [of _ stored])
    apply (rule exI [of _ out])
    apply (intro conjI)
      apply (rule o [THEN conjunct1])
     apply (rule o [THEN conjunct2, THEN conjunct2, THEN conjunct1, unfolded t])
    apply (rule o [THEN conjunct2, THEN conjunct2, THEN conjunct2, unfolded t])
    done
qed

subsection \<open>The product listing\<close>








lemma option_i: "CHR ''i'' \<in> set ''i''"
  by simp


























end
